theory Spec2Isabelle
  imports Main "HOL-Library.Monad_Syntax"
begin

section \<open>Request values\<close>

text \<open>
  Request bodies are parsed JSON and the route handlers of \<^verbatim>\<open>server/routes.ts\<close> read
  them untyped (\<^verbatim>\<open>const { title, ... } = req.body\<close>). A body is a function from
  property names to values; a property that the body does not carry reads as
  \<open>JUndefined\<close>. The values are the scalars of JSON, numbers being integers (the handlers
  only test a number for zero). Arrays and objects as property values are outside the
  model: the database client reads an object in the place of a value as an operator
  (\<^verbatim>\<open>{ set: ... }\<close>, \<^verbatim>\<open>{ not: ... }\<close>), which is not interpreted here.
\<close>

datatype jsval = JUndefined | JNull | JBool bool | JNum int | JStr string

type_synonym body = "string \<Rightarrow> jsval"

text \<open>JavaScript truthiness, as tested by \<^verbatim>\<open>!x\<close>, \<^verbatim>\<open>x || d\<close> and \<^verbatim>\<open>x ? a : b\<close>.\<close>

fun truthy :: "jsval \<Rightarrow> bool" where
  "truthy JUndefined = False"
| "truthy JNull = False"
| "truthy (JBool b) = b"
| "truthy (JNum n) = (n \<noteq> 0)"
| "truthy (JStr s) = (s \<noteq> [])"

text \<open>\<^verbatim>\<open>a || b\<close>\<close>

definition js_or :: "jsval \<Rightarrow> jsval \<Rightarrow> jsval" where
  "js_or a b = (if truthy a then a else b)"

text \<open>
  \<^verbatim>\<open>new Date(v)\<close> is a JavaScript built-in; the handlers take it as the parameter
  \<open>newDate\<close>. Its result is either a point in time (milliseconds) or the Invalid Date.
\<close>

datatype date = Date int | InvalidDate

section \<open>The stored rows\<close>

text \<open>
  Modelled from the spec: \<^verbatim>\<open>prisma/schema.prisma\<close> is not among the sources. The rows
  carry the columns of the spec's data model (and of the README's schema list) that the
  route handlers read or write; identifiers, names, status, priority and role are
  strings (the handlers cast query filters with \<^verbatim>\<open>status as string\<close>), description,
  dueDate and assigneeId are nullable. The time stamps \<^verbatim>\<open>createdAt\<close>/\<^verbatim>\<open>updatedAt\<close>
  are left out: they only order listings.
\<close>

record user =
  user_id :: string
  user_email :: string
  user_username :: string
  user_password :: string
  user_displayName :: "string option"
  user_avatarUrl :: "string option"

record project =
  project_id :: string
  project_name :: string
  project_description :: "string option"
  project_color :: string

record projectMember =
  pm_id :: string
  pm_projectId :: string
  pm_userId :: string
  pm_role :: string

record task =
  task_id :: string
  task_title :: string
  task_description :: "string option"
  task_status :: string
  task_priority :: string
  task_dueDate :: "int option"
  task_projectId :: string
  task_creatorId :: string
  task_assigneeId :: "string option"

record comment =
  comment_id :: string
  comment_content :: string
  comment_taskId :: string
  comment_userId :: string

record attachment =
  att_id :: string
  att_filename :: string
  att_url :: string
  att_mimeType :: string
  att_size :: nat
  att_taskId :: string
  att_uploaderId :: string

record database =
  users :: "user list"
  projects :: "project list"
  projectMembers :: "projectMember list"
  tasks :: "task list"
  comments :: "comment list"
  attachments :: "attachment list"

section \<open>Responses\<close>

text \<open>
  \<^verbatim>\<open>res.json(x)\<close> is \<open>Json x\<close> (status 200); \<^verbatim>\<open>res.status(c).json({ error: m })\<close> is
  \<open>Err c m\<close>. Every handler returns its response together with the store it leaves.
\<close>

datatype 'a response = Json 'a | Err nat string

definition NotFound :: "'a response \<Rightarrow> bool" where
  "NotFound r = (case r of Err c m \<Rightarrow> c = 404 | Json x \<Rightarrow> False)"

definition Forbidden :: "'a response \<Rightarrow> bool" where
  "Forbidden r = (case r of Err c m \<Rightarrow> c = 403 | Json x \<Rightarrow> False)"

section \<open>The database client\<close>

text \<open>
  The Prisma calls the handlers make. A call that throws (argument of the wrong type
  for its column, broken foreign key, duplicate identifier, row to delete missing)
  yields \<open>None\<close>; the handlers' \<^verbatim>\<open>catch\<close> turns that into status 500.
\<close>

text \<open>A value for a required string column or a string filter.\<close>

fun reqStr :: "jsval \<Rightarrow> string option" where
  "reqStr (JStr s) = Some s"
| "reqStr _ = None"

text \<open>A value for a nullable string column: \<^verbatim>\<open>undefined\<close> and \<^verbatim>\<open>null\<close> leave it empty.\<close>

fun optStr :: "jsval \<Rightarrow> string option option" where
  "optStr JUndefined = Some None"
| "optStr JNull = Some None"
| "optStr (JStr s) = Some (Some s)"
| "optStr _ = None"

text \<open>A value for the nullable date column; the Invalid Date is refused.\<close>

fun optDate :: "date option \<Rightarrow> int option option" where
  "optDate None = Some None"
| "optDate (Some (Date ms)) = Some (Some ms)"
| "optDate (Some InvalidDate) = None"

definition user_exists :: "database \<Rightarrow> string \<Rightarrow> bool" where
  "user_exists db uid = (\<exists>u \<in> set (users db). user_id u = uid)"

definition project_exists :: "database \<Rightarrow> string \<Rightarrow> bool" where
  "project_exists db pid = (\<exists>p \<in> set (projects db). project_id p = pid)"

text \<open>The relation filter \<^verbatim>\<open>members: { some: { userId: uid } }\<close> on the project \<open>pid\<close>.\<close>

definition members_some :: "database \<Rightarrow> string \<Rightarrow> string \<Rightarrow> bool" where
  "members_some db pid uid =
     (\<exists>m \<in> set (projectMembers db). pm_projectId m = pid \<and> pm_userId m = uid)"

text \<open>The relation filter \<^verbatim>\<open>project: { members: { some: { userId: uid } } }\<close> on a task.\<close>

definition task_visible :: "database \<Rightarrow> string \<Rightarrow> task \<Rightarrow> bool" where
  "task_visible db uid t =
     (\<exists>p \<in> set (projects db). project_id p = task_projectId t \<and> members_some db (project_id p) uid)"

text \<open>\<^verbatim>\<open>prisma.project.findFirst({ where: { id, members: { some: { userId } } } })\<close>\<close>

definition project_findFirst :: "database \<Rightarrow> jsval \<Rightarrow> string \<Rightarrow> project option option" where
  "project_findFirst db i uid =
     (case reqStr i of
        None \<Rightarrow> None
      | Some pid \<Rightarrow> Some (find (\<lambda>p. project_id p = pid \<and> members_some db (project_id p) uid) (projects db)))"

text \<open>\<^verbatim>\<open>prisma.task.findFirst({ where: { id, project: { members: { some: { userId } } } } })\<close>\<close>

definition task_findFirst :: "database \<Rightarrow> string \<Rightarrow> string \<Rightarrow> task option" where
  "task_findFirst db tid uid = find (\<lambda>t. task_id t = tid \<and> task_visible db uid t) (tasks db)"

text \<open>
  \<^verbatim>\<open>prisma.task.create({ data })\<close>: the arguments are checked against the column types,
  the new identifier \<open>newId\<close> (generated by the database) must be unused, and the
  project, creator and assignee must exist.
\<close>

definition task_create ::
  "database \<Rightarrow> string \<Rightarrow> jsval \<Rightarrow> jsval \<Rightarrow> jsval \<Rightarrow> jsval \<Rightarrow> jsval \<Rightarrow> date option \<Rightarrow> jsval \<Rightarrow> string
     \<Rightarrow> (task \<times> database) option" where
  "task_create db newId title description projectId status priority dueDate assigneeId creatorId =
     do {
       t \<leftarrow> reqStr title;
       d \<leftarrow> optStr description;
       p \<leftarrow> reqStr projectId;
       s \<leftarrow> reqStr status;
       pr \<leftarrow> reqStr priority;
       due \<leftarrow> optDate dueDate;
       a \<leftarrow> optStr assigneeId;
       if (\<exists>x \<in> set (tasks db). task_id x = newId) then None
       else if \<not> project_exists db p \<or> \<not> user_exists db creatorId
               \<or> (case a of None \<Rightarrow> False | Some u \<Rightarrow> \<not> user_exists db u) then None
       else
         let task = \<lparr> task_id = newId, task_title = t, task_description = d, task_status = s,
                      task_priority = pr, task_dueDate = due, task_projectId = p,
                      task_creatorId = creatorId, task_assigneeId = a \<rparr>
         in Some (task, db\<lparr> tasks := tasks db @ [task] \<rparr>)
     }"

text \<open>
  The values of an update's \<^verbatim>\<open>data\<close>. A key that is absent, or whose value is
  \<^verbatim>\<open>undefined\<close>, leaves the column alone (\<open>Some None\<close>); otherwise the value must fit the
  column (\<open>Some (Some v)\<close>) or the call throws (\<open>None\<close>).
\<close>

fun updReq :: "jsval option \<Rightarrow> string option option" where
  "updReq None = Some None"
| "updReq (Some JUndefined) = Some None"
| "updReq (Some (JStr s)) = Some (Some s)"
| "updReq (Some _) = None"

fun updOpt :: "jsval option \<Rightarrow> string option option option" where
  "updOpt None = Some None"
| "updOpt (Some JUndefined) = Some None"
| "updOpt (Some JNull) = Some (Some None)"
| "updOpt (Some (JStr s)) = Some (Some (Some s))"
| "updOpt (Some _) = None"

fun updDate :: "date option option \<Rightarrow> int option option option" where
  "updDate None = Some None"
| "updDate (Some None) = Some (Some None)"
| "updDate (Some (Some (Date ms))) = Some (Some (Some ms))"
| "updDate (Some (Some InvalidDate)) = None"

text \<open>Writing one column of an update: \<open>None\<close> keeps the old value.\<close>

definition setcol :: "'a option \<Rightarrow> 'a \<Rightarrow> 'a" where
  "setcol new old = (case new of None \<Rightarrow> old | Some v \<Rightarrow> v)"

text \<open>
  \<^verbatim>\<open>prisma.task.updateMany({ where: { id, project: { members: { some: { userId } } } }, data })\<close>:
  the result is the number of rows matched and the store with those rows rewritten. A new
  assignee must exist when a row is rewritten. When \<^verbatim>\<open>data\<close> names no column, nothing is
  written and the count reported is 0.
\<close>

definition task_updateMany ::
  "database \<Rightarrow> string \<Rightarrow> string \<Rightarrow> jsval option \<Rightarrow> jsval option \<Rightarrow> jsval option \<Rightarrow> jsval option
     \<Rightarrow> date option option \<Rightarrow> jsval option \<Rightarrow> (nat \<times> database) option" where
  "task_updateMany db tid uid title description status priority dueDate assigneeId =
     do {
       t \<leftarrow> updReq title;
       d \<leftarrow> updOpt description;
       s \<leftarrow> updReq status;
       pr \<leftarrow> updReq priority;
       due \<leftarrow> updDate dueDate;
       a \<leftarrow> updOpt assigneeId;
       let hit = (\<lambda>x. task_id x = tid \<and> task_visible db uid x);
           n = length (filter hit (tasks db))
       in if t = None \<and> d = None \<and> s = None \<and> pr = None \<and> due = None \<and> a = None
          then Some (0, db)
          else if n > 0 \<and> (case a of Some (Some u) \<Rightarrow> \<not> user_exists db u | _ \<Rightarrow> False) then None
          else Some (n, db\<lparr> tasks := map (\<lambda>x. if hit x
                        then x\<lparr> task_title := setcol t (task_title x),
                               task_description := setcol d (task_description x),
                               task_status := setcol s (task_status x),
                               task_priority := setcol pr (task_priority x),
                               task_dueDate := setcol due (task_dueDate x),
                               task_assigneeId := setcol a (task_assigneeId x) \<rparr>
                        else x) (tasks db) \<rparr>)
     }"

text \<open>\<^verbatim>\<open>prisma.task.findUnique({ where: { id } })\<close>\<close>

definition task_findUnique :: "database \<Rightarrow> string \<Rightarrow> task option" where
  "task_findUnique db tid = find (\<lambda>t. task_id t = tid) (tasks db)"

text \<open>
  Modelled from the spec: the referential actions of \<^verbatim>\<open>prisma/schema.prisma\<close> are not
  among the sources. Following the spec ("deletion cascades to members and tasks";
  "Delete: cascades per entity relationships"), deleting a row removes the rows that
  belong to it: a task's comments and attachments go with the task, a project's
  memberships and tasks go with the project. Deleting a row that does not exist throws.
\<close>

definition task_delete :: "database \<Rightarrow> string \<Rightarrow> database option" where
  "task_delete db tid =
     (if \<not> (\<exists>t \<in> set (tasks db). task_id t = tid) then None
      else Some (db\<lparr> tasks := filter (\<lambda>t. task_id t \<noteq> tid) (tasks db),
                     comments := filter (\<lambda>c. comment_taskId c \<noteq> tid) (comments db),
                     attachments := filter (\<lambda>a. att_taskId a \<noteq> tid) (attachments db) \<rparr>))"

definition project_delete :: "database \<Rightarrow> string \<Rightarrow> database option" where
  "project_delete db pid =
     (if \<not> project_exists db pid then None
      else
        let gone = map task_id (filter (\<lambda>t. task_projectId t = pid) (tasks db))
        in Some (db\<lparr> projects := filter (\<lambda>p. project_id p \<noteq> pid) (projects db),
                      projectMembers := filter (\<lambda>m. pm_projectId m \<noteq> pid) (projectMembers db),
                      tasks := filter (\<lambda>t. task_projectId t \<noteq> pid) (tasks db),
                      comments := filter (\<lambda>c. comment_taskId c \<notin> set gone) (comments db),
                      attachments := filter (\<lambda>a. att_taskId a \<notin> set gone) (attachments db) \<rparr>))"

text \<open>
  \<^verbatim>\<open>prisma.project.updateMany({ where: { id, members: { some: { userId } } }, data: { name, description, color } })\<close>;
  as for tasks, with all three values \<^verbatim>\<open>undefined\<close> nothing is written and the count is 0.
\<close>

definition project_updateMany ::
  "database \<Rightarrow> string \<Rightarrow> string \<Rightarrow> jsval \<Rightarrow> jsval \<Rightarrow> jsval \<Rightarrow> (nat \<times> database) option" where
  "project_updateMany db pid uid name description color =
     do {
       n \<leftarrow> updReq (Some name);
       d \<leftarrow> updOpt (Some description);
       c \<leftarrow> updReq (Some color);
       let hit = (\<lambda>p. project_id p = pid \<and> members_some db (project_id p) uid)
       in if n = None \<and> d = None \<and> c = None then Some (0, db)
          else Some (length (filter hit (projects db)),
                db\<lparr> projects := map (\<lambda>p. if hit p
                        then p\<lparr> project_name := setcol n (project_name p),
                               project_description := setcol d (project_description p),
                               project_color := setcol c (project_color p) \<rparr>
                        else p) (projects db) \<rparr>)
     }"

text \<open>\<^verbatim>\<open>prisma.project.findUnique({ where: { id } })\<close>\<close>

definition project_findUnique :: "database \<Rightarrow> string \<Rightarrow> project option" where
  "project_findUnique db pid = find (\<lambda>p. project_id p = pid) (projects db)"

text \<open>\<^verbatim>\<open>prisma.user.findUnique({ where: { email } })\<close>; an email that is no string throws.\<close>

definition user_findUnique_email :: "database \<Rightarrow> jsval \<Rightarrow> user option option" where
  "user_findUnique_email db email =
     (case reqStr email of
        None \<Rightarrow> None
      | Some e \<Rightarrow> Some (find (\<lambda>u. user_email u = e) (users db)))"

text \<open>\<^verbatim>\<open>prisma.projectMember.findFirst({ where: { projectId, userId } })\<close>\<close>

definition projectMember_findFirst :: "database \<Rightarrow> string \<Rightarrow> string \<Rightarrow> projectMember option" where
  "projectMember_findFirst db pid uid =
     find (\<lambda>m. pm_projectId m = pid \<and> pm_userId m = uid) (projectMembers db)"

text \<open>\<^verbatim>\<open>prisma.projectMember.findFirst({ where: { projectId, userId, role: "owner" } })\<close>\<close>

definition projectMember_findFirst_owner :: "database \<Rightarrow> string \<Rightarrow> string \<Rightarrow> projectMember option" where
  "projectMember_findFirst_owner db pid uid =
     find (\<lambda>m. pm_projectId m = pid \<and> pm_userId m = uid \<and> pm_role m = ''owner'') (projectMembers db)"

text \<open>\<^verbatim>\<open>prisma.projectMember.create({ data: { projectId, userId, role } })\<close>\<close>

definition projectMember_create ::
  "database \<Rightarrow> string \<Rightarrow> string \<Rightarrow> string \<Rightarrow> jsval \<Rightarrow> (projectMember \<times> database) option" where
  "projectMember_create db newId pid uid role =
     do {
       r \<leftarrow> reqStr role;
       if (\<exists>x \<in> set (projectMembers db). pm_id x = newId) then None
       else if \<not> project_exists db pid \<or> \<not> user_exists db uid then None
       else
         let member = \<lparr> pm_id = newId, pm_projectId = pid, pm_userId = uid, pm_role = r \<rparr>
         in Some (member, db\<lparr> projectMembers := projectMembers db @ [member] \<rparr>)
     }"

text \<open>\<^verbatim>\<open>prisma.comment.create({ data: { content, taskId, userId } })\<close>\<close>

definition comment_create ::
  "database \<Rightarrow> string \<Rightarrow> jsval \<Rightarrow> string \<Rightarrow> string \<Rightarrow> (comment \<times> database) option" where
  "comment_create db newId content tid uid =
     do {
       c \<leftarrow> reqStr content;
       if (\<exists>x \<in> set (comments db). comment_id x = newId) then None
       else if \<not> (\<exists>t \<in> set (tasks db). task_id t = tid) \<or> \<not> user_exists db uid then None
       else
         let row = \<lparr> comment_id = newId, comment_content = c, comment_taskId = tid,
                     comment_userId = uid \<rparr>
         in Some (row, db\<lparr> comments := comments db @ [row] \<rparr>)
     }"

text \<open>The file that the upload middleware hands to the handler as \<^verbatim>\<open>req.file\<close>.\<close>

record upfile =
  originalname :: string
  filename :: string
  mimetype :: string
  filesize :: nat

text \<open>\<^verbatim>\<open>prisma.attachment.create({ data: { filename, url, mimeType, size, taskId, uploaderId } })\<close>\<close>

definition attachment_create ::
  "database \<Rightarrow> string \<Rightarrow> string \<Rightarrow> string \<Rightarrow> string \<Rightarrow> nat \<Rightarrow> string \<Rightarrow> string
     \<Rightarrow> (attachment \<times> database) option" where
  "attachment_create db newId fname url mime sz tid uid =
     (if (\<exists>x \<in> set (attachments db). att_id x = newId) then None
      else if \<not> (\<exists>t \<in> set (tasks db). task_id t = tid) \<or> \<not> user_exists db uid then None
      else
        let row = \<lparr> att_id = newId, att_filename = fname, att_url = url, att_mimeType = mime,
                    att_size = sz, att_taskId = tid, att_uploaderId = uid \<rparr>
        in Some (row, db\<lparr> attachments := attachments db @ [row] \<rparr>))"

section \<open>Project routes\<close>

text \<open>
  In every handler \<open>uid\<close> is \<^verbatim>\<open>req.user!.id\<close>, the identifier that \<^verbatim>\<open>authMiddleware\<close>
  took from the verified token, and \<open>pid\<close> or \<open>tid\<close> is \<^verbatim>\<open>req.params.id\<close>. Of a success
  body the rows are kept; the profile summaries that \<^verbatim>\<open>include\<close> joins in are not.
\<close>

text \<open>\<^verbatim>\<open>GET /api/projects/:id\<close>: the project with its members and tasks.\<close>

definition getProject ::
  "database \<Rightarrow> string \<Rightarrow> string \<Rightarrow> (project \<times> projectMember list \<times> task list) response" where
  "getProject db uid pid =
     (case project_findFirst db (JStr pid) uid of
        None \<Rightarrow> Err 500 ''Failed to fetch project''
      | Some None \<Rightarrow> Err 404 ''Project not found''
      | Some (Some project) \<Rightarrow>
          Json (project,
                filter (\<lambda>m. pm_projectId m = project_id project) (projectMembers db),
                filter (\<lambda>t. task_projectId t = project_id project) (tasks db)))"

text \<open>\<^verbatim>\<open>PUT /api/projects/:id\<close>\<close>

definition updateProject ::
  "database \<Rightarrow> string \<Rightarrow> string \<Rightarrow> body \<Rightarrow> project option response \<times> database" where
  "updateProject db uid pid b =
     (let name = b ''name''; description = b ''description''; color = b ''color''
      in case project_updateMany db pid uid name description color of
           None \<Rightarrow> (Err 500 ''Failed to update project'', db)
         | Some (count, db') \<Rightarrow>
             if count = 0 then (Err 404 ''Project not found'', db')
             else (Json (project_findUnique db' pid), db'))"

text \<open>\<^verbatim>\<open>DELETE /api/projects/:id\<close>\<close>

definition deleteProject :: "database \<Rightarrow> string \<Rightarrow> string \<Rightarrow> unit response \<times> database" where
  "deleteProject db uid pid =
     (case projectMember_findFirst_owner db pid uid of
        None \<Rightarrow> (Err 403 ''Only owner can delete project'', db)
      | Some membership \<Rightarrow>
          (case project_delete db pid of
             None \<Rightarrow> (Err 500 ''Failed to delete project'', db)
           | Some db' \<Rightarrow> (Json (), db')))"

text \<open>\<^verbatim>\<open>POST /api/projects/:id/members\<close>\<close>

definition addMember ::
  "database \<Rightarrow> string \<Rightarrow> string \<Rightarrow> string \<Rightarrow> body \<Rightarrow> projectMember response \<times> database" where
  "addMember db newId uid pid b =
     (let email = b ''email''; role = b ''role''
      in case user_findUnique_email db email of
           None \<Rightarrow> (Err 500 ''Failed to add member'', db)
         | Some None \<Rightarrow> (Err 404 ''User not found'', db)
         | Some (Some user) \<Rightarrow>
             (case projectMember_findFirst db pid (user_id user) of
                Some existingMember \<Rightarrow> (Err 400 ''User is already a member'', db)
              | None \<Rightarrow>
                  (case projectMember_create db newId pid (user_id user) (js_or role (JStr ''member'')) of
                     None \<Rightarrow> (Err 500 ''Failed to add member'', db)
                   | Some (member, db') \<Rightarrow> (Json member, db'))))"

section \<open>Task routes\<close>

text \<open>
  \<^verbatim>\<open>POST /api/tasks\<close>. The handler runs behind \<^verbatim>\<open>authMiddleware\<close>; \<open>uid\<close> is
  \<^verbatim>\<open>req.user!.id\<close>, the identifier carried by the verified token.
\<close>

definition createTask ::
  "(jsval \<Rightarrow> date) \<Rightarrow> database \<Rightarrow> string \<Rightarrow> string \<Rightarrow> body \<Rightarrow> task response \<times> database" where
  "createTask newDate db newId uid b =
     (let title = b ''title''; description = b ''description''; projectId = b ''projectId'';
          status = b ''status''; priority = b ''priority''; dueDate = b ''dueDate'';
          assigneeId = b ''assigneeId''
      in if \<not> truthy title \<or> \<not> truthy projectId
         then (Err 400 ''Title and project are required'', db)
         else case project_findFirst db projectId uid of
           None \<Rightarrow> (Err 500 ''Failed to create task'', db)
         | Some None \<Rightarrow> (Err 404 ''Project not found'', db)
         | Some (Some project) \<Rightarrow>
             (case task_create db newId title description projectId
                     (js_or status (JStr ''todo'')) (js_or priority (JStr ''medium''))
                     (if truthy dueDate then Some (newDate dueDate) else None)
                     assigneeId uid of
                None \<Rightarrow> (Err 500 ''Failed to create task'', db)
              | Some (task, db') \<Rightarrow> (Json task, db')))"


text \<open>\<^verbatim>\<open>GET /api/tasks/:id\<close>: the task with its comments and attachments.\<close>

definition getTask ::
  "database \<Rightarrow> string \<Rightarrow> string \<Rightarrow> (task \<times> comment list \<times> attachment list) response" where
  "getTask db uid tid =
     (case task_findFirst db tid uid of
        None \<Rightarrow> Err 404 ''Task not found''
      | Some task \<Rightarrow>
          Json (task,
                filter (\<lambda>c. comment_taskId c = task_id task) (comments db),
                filter (\<lambda>a. att_taskId a = task_id task) (attachments db)))"

text \<open>
  \<^verbatim>\<open>PUT /api/tasks/:id\<close>. \<open>present\<close> is the spread \<^verbatim>\<open>...(x !== undefined && { x })\<close>: the
  key enters \<^verbatim>\<open>data\<close> only when the body defines it.
\<close>

definition present :: "jsval \<Rightarrow> jsval option" where
  "present v = (if v \<noteq> JUndefined then Some v else None)"

definition updateTask ::
  "(jsval \<Rightarrow> date) \<Rightarrow> database \<Rightarrow> string \<Rightarrow> string \<Rightarrow> body \<Rightarrow> task option response \<times> database" where
  "updateTask newDate db uid tid b =
     (let title = b ''title''; description = b ''description''; status = b ''status'';
          priority = b ''priority''; dueDate = b ''dueDate''; assigneeId = b ''assigneeId''
      in case task_updateMany db tid uid (present title) (present description) (present status)
                (present priority)
                (if dueDate \<noteq> JUndefined
                 then Some (if truthy dueDate then Some (newDate dueDate) else None) else None)
                (present assigneeId) of
           None \<Rightarrow> (Err 500 ''Failed to update task'', db)
         | Some (count, db') \<Rightarrow>
             if count = 0 then (Err 404 ''Task not found'', db')
             else (Json (task_findUnique db' tid), db'))"

text \<open>\<^verbatim>\<open>DELETE /api/tasks/:id\<close>\<close>

definition deleteTask :: "database \<Rightarrow> string \<Rightarrow> string \<Rightarrow> unit response \<times> database" where
  "deleteTask db uid tid =
     (case task_findFirst db tid uid of
        None \<Rightarrow> (Err 404 ''Task not found'', db)
      | Some task \<Rightarrow>
          (case task_delete db tid of
             None \<Rightarrow> (Err 500 ''Failed to delete task'', db)
           | Some db' \<Rightarrow> (Json (), db')))"

text \<open>\<^verbatim>\<open>POST /api/tasks/:id/comments\<close>\<close>

definition createComment ::
  "database \<Rightarrow> string \<Rightarrow> string \<Rightarrow> string \<Rightarrow> body \<Rightarrow> comment response \<times> database" where
  "createComment db newId uid tid b =
     (let content = b ''content''
      in if \<not> truthy content then (Err 400 ''Content is required'', db)
         else case task_findFirst db tid uid of
           None \<Rightarrow> (Err 404 ''Task not found'', db)
         | Some task \<Rightarrow>
             (case comment_create db newId content tid uid of
                None \<Rightarrow> (Err 500 ''Failed to create comment'', db)
              | Some (row, db') \<Rightarrow> (Json row, db')))"

text \<open>
  \<^verbatim>\<open>POST /api/tasks/:id/attachments\<close>, after \<^verbatim>\<open>upload.single("file")\<close> has stored the
  upload: \<open>file\<close> is \<^verbatim>\<open>req.file\<close>, absent when the form carried no file.
\<close>

definition createAttachment ::
  "database \<Rightarrow> string \<Rightarrow> string \<Rightarrow> string \<Rightarrow> upfile option \<Rightarrow> attachment response \<times> database" where
  "createAttachment db newId uid tid file =
     (case file of
        None \<Rightarrow> (Err 400 ''File is required'', db)
      | Some f \<Rightarrow>
          (case task_findFirst db tid uid of
             None \<Rightarrow> (Err 404 ''Task not found'', db)
           | Some task \<Rightarrow>
               (case attachment_create db newId (originalname f) (''/uploads/'' @ filename f)
                       (mimetype f) (filesize f) tid uid of
                  None \<Rightarrow> (Err 500 ''Failed to upload attachment'', db)
                | Some (row, db') \<Rightarrow> (Json row, db'))))"

section \<open>Team route\<close>

text \<open>
  \<^verbatim>\<open>GET /api/team\<close>: the selected columns of each user row, with
  \<^verbatim>\<open>_count.assignedTasks\<close>, the number of tasks whose assignee the user is.
\<close>

record teamMember =
  tm_id :: string
  tm_username :: string
  tm_displayName :: "string option"
  tm_avatarUrl :: "string option"
  tm_email :: string
  tm_assignedTasks :: nat

definition team :: "database \<Rightarrow> string \<Rightarrow> teamMember list" where
  "team db uid =
     (let projectIds = map pm_projectId (filter (\<lambda>m. pm_userId m = uid) (projectMembers db));
          teamMembers =
            filter (\<lambda>u. \<exists>m \<in> set (projectMembers db).
                           pm_userId m = user_id u \<and> pm_projectId m \<in> set projectIds) (users db)
      in map (\<lambda>u. \<lparr> tm_id = user_id u, tm_username = user_username u,
                     tm_displayName = user_displayName u, tm_avatarUrl = user_avatarUrl u,
                     tm_email = user_email u,
                     tm_assignedTasks =
                       length (filter (\<lambda>t. task_assigneeId t = Some (user_id u)) (tasks db)) \<rparr>)
           teamMembers)"

section \<open>Token service\<close>

text \<open>The identity a token carries, \<^verbatim>\<open>{ id, email, username }\<close> of \<^verbatim>\<open>server/auth.ts\<close>.\<close>

record identity =
  ident_id :: string
  ident_email :: string
  ident_username :: string

text \<open>
  Modelled from the spec: the \<^verbatim>\<open>jsonwebtoken\<close> library behind \<^verbatim>\<open>jwt.sign\<close> and
  \<^verbatim>\<open>jwt.verify\<close> is not among the sources. Following the spec's token service, a token
  embeds the identity and an expiry and carries a deterministic signature made with the
  server's secret; verification checks the signature and the expiry and signals Invalid
  on any mismatch, malformed token or expiry. A token string either does not decode
  (\<open>Malformed\<close>) or decodes to its claims and its signature. The signing function \<open>mac\<close>
  and the clock \<open>now\<close> (in seconds) are parameters.
\<close>

record claims =
  claim_payload :: identity
  claim_iat :: nat
  claim_exp :: nat

datatype token = Malformed string | Token claims string

datatype jwt_error = JsonWebTokenError | TokenExpiredError

definition jwt_sign ::
  "(string \<Rightarrow> claims \<Rightarrow> string) \<Rightarrow> nat \<Rightarrow> identity \<Rightarrow> string \<Rightarrow> nat \<Rightarrow> token" where
  "jwt_sign mac now payload secret expiresIn =
     (let c = \<lparr> claim_payload = payload, claim_iat = now, claim_exp = now + expiresIn \<rparr>
      in Token c (mac secret c))"

definition jwt_verify ::
  "(string \<Rightarrow> claims \<Rightarrow> string) \<Rightarrow> nat \<Rightarrow> token \<Rightarrow> string \<Rightarrow> jwt_error + claims" where
  "jwt_verify mac now tok secret =
     (case tok of
        Malformed s \<Rightarrow> Inl JsonWebTokenError
      | Token c sig \<Rightarrow>
          if sig \<noteq> mac secret c then Inl JsonWebTokenError
          else if claim_exp c \<le> now then Inl TokenExpiredError
          else Inr c)"

text \<open>
  \<^verbatim>\<open>const JWT_SECRET = process.env.SESSION_SECRET || "taskflow-secret-key"\<close>, from the
  environment variable (absent, or a string).
\<close>

definition JWT_SECRET :: "string option \<Rightarrow> string" where
  "JWT_SECRET env = (case env of None \<Rightarrow> ''taskflow-secret-key''
                     | Some s \<Rightarrow> if s \<noteq> [] then s else ''taskflow-secret-key'')"

text \<open>The seconds of \<^verbatim>\<open>expiresIn: "7d"\<close>.\<close>

definition seven_days :: nat where
  "seven_days = 7 * 24 * 60 * 60"

text \<open>
  \<^verbatim>\<open>generateToken(user)\<close>: the payload is built from the three fields of \<open>user\<close>, whatever
  else the object carries.
\<close>

definition generateToken ::
  "(string \<Rightarrow> claims \<Rightarrow> string) \<Rightarrow> nat \<Rightarrow> string option \<Rightarrow> 'a identity_scheme \<Rightarrow> token" where
  "generateToken mac now env user =
     jwt_sign mac now
       \<lparr> ident_id = ident_id user, ident_email = ident_email user,
         ident_username = ident_username user \<rparr>
       (JWT_SECRET env) seven_days"

text \<open>\<^verbatim>\<open>verifyToken(token)\<close>: the decoded payload, or \<^verbatim>\<open>null\<close> when \<^verbatim>\<open>jwt.verify\<close> throws.\<close>

definition verifyToken ::
  "(string \<Rightarrow> claims \<Rightarrow> string) \<Rightarrow> nat \<Rightarrow> string option \<Rightarrow> token \<Rightarrow> identity option" where
  "verifyToken mac now env tok =
     (case jwt_verify mac now tok (JWT_SECRET env) of
        Inl e \<Rightarrow> None
      | Inr c \<Rightarrow> Some (claim_payload c))"

section \<open>Sequences of task operations\<close>

text \<open>The values the spec's data model lists for a task's status and priority.\<close>

definition valid_status :: "string \<Rightarrow> bool" where
  "valid_status s = (s \<in> {''todo'', ''in_progress'', ''in_review'', ''completed''})"

definition valid_priority :: "string \<Rightarrow> bool" where
  "valid_priority s = (s \<in> {''low'', ''medium'', ''high''})"

definition tasks_valid :: "database \<Rightarrow> bool" where
  "tasks_valid db =
     (\<forall>t \<in> set (tasks db). valid_status (task_status t) \<and> valid_priority (task_priority t))"

text \<open>A request that names no status or a listed one, and no priority or a listed one.\<close>

definition names_listed :: "body \<Rightarrow> bool" where
  "names_listed b =
     ((case b ''status'' of JUndefined \<Rightarrow> True | JStr s \<Rightarrow> valid_status s | _ \<Rightarrow> False) \<and>
      (case b ''priority'' of JUndefined \<Rightarrow> True | JStr s \<Rightarrow> valid_priority s | _ \<Rightarrow> False))"

text \<open>
  A task creation (\<^verbatim>\<open>POST /api/tasks\<close>, with the identifier the database generates for
  the row) or a task update (\<^verbatim>\<open>PUT /api/tasks/:id\<close>), by the user named first.
\<close>

datatype task_op = Create string string body | Update string string body

fun op_body :: "task_op \<Rightarrow> body" where
  "op_body (Create uid newId b) = b"
| "op_body (Update uid tid b) = b"

fun step :: "(jsval \<Rightarrow> date) \<Rightarrow> database \<Rightarrow> task_op \<Rightarrow> database" where
  "step newDate db (Create uid newId b) = snd (createTask newDate db newId uid b)"
| "step newDate db (Update uid tid b) = snd (updateTask newDate db uid tid b)"

fun run :: "(jsval \<Rightarrow> date) \<Rightarrow> database \<Rightarrow> task_op list \<Rightarrow> database" where
  "run newDate db [] = db"
| "run newDate db (x # xs) = run newDate (step newDate db x) xs"

text \<open>No task row refers to a project that is not stored.\<close>

definition no_orphan_tasks :: "database \<Rightarrow> bool" where
  "no_orphan_tasks db = (\<forall>t \<in> set (tasks db). project_exists db (task_projectId t))"

section \<open>A sample store\<close>

text \<open>
  The scenario of the spec: alice owns the project Launch, bob was invited to it, carol
  was not; the task "Write docs" belongs to Launch.
\<close>

definition obj :: "(string \<times> jsval) list \<Rightarrow> body" where
  "obj kvs = (\<lambda>k. case map_of kvs k of None \<Rightarrow> JUndefined | Some v \<Rightarrow> v)"

definition alice :: user where
  "alice = \<lparr> user_id = ''u1'', user_email = ''alice@example.com'', user_username = ''alice'',
             user_password = ''h1'', user_displayName = Some ''Alice'', user_avatarUrl = None \<rparr>"

definition bob :: user where
  "bob = \<lparr> user_id = ''u2'', user_email = ''bob@example.com'', user_username = ''bob'',
           user_password = ''h2'', user_displayName = Some ''Bob'', user_avatarUrl = None \<rparr>"

definition carol :: user where
  "carol = \<lparr> user_id = ''u3'', user_email = ''carol@example.com'', user_username = ''carol'',
             user_password = ''h3'', user_displayName = None, user_avatarUrl = None \<rparr>"

definition launch :: project where
  "launch = \<lparr> project_id = ''p1'', project_name = ''Launch'', project_description = None,
              project_color = ''#2563EB'' \<rparr>"

definition docs :: task where
  "docs = \<lparr> task_id = ''t1'', task_title = ''Write docs'', task_description = None,
            task_status = ''todo'', task_priority = ''medium'', task_dueDate = Some 1767225600000,
            task_projectId = ''p1'', task_creatorId = ''u1'', task_assigneeId = Some ''u2'' \<rparr>"

definition db0 :: database where
  "db0 = \<lparr> users = [alice, bob, carol], projects = [launch],
           projectMembers =
             [\<lparr> pm_id = ''m1'', pm_projectId = ''p1'', pm_userId = ''u1'', pm_role = ''owner'' \<rparr>,
              \<lparr> pm_id = ''m2'', pm_projectId = ''p1'', pm_userId = ''u2'', pm_role = ''member'' \<rparr>],
           tasks = [docs], comments = [], attachments = [] \<rparr>"

text \<open>The same store before the project Launch was created.\<close>

definition db_empty :: database where
  "db_empty = \<lparr> users = [alice, bob, carol], projects = [], projectMembers = [], tasks = [],
                comments = [], attachments = [] \<rparr>"

text \<open>A toy signing function and alice's identity, for evaluating the token service.\<close>

definition toy_mac :: "string \<Rightarrow> claims \<Rightarrow> string" where
  "toy_mac secret c = secret @ ''/'' @ ident_id (claim_payload c)"

definition alice_identity :: identity where
  "alice_identity = \<lparr> ident_id = ''u1'', ident_email = ''alice@example.com'',
                      ident_username = ''alice'' \<rparr>"

section \<open>Lemmas about the database client\<close>

lemmas sample_defs = db0_def alice_def bob_def carol_def launch_def docs_def obj_def

lemma project_findFirst_SomeD:
  assumes "project_findFirst db i uid = Some (Some p)"
  shows "i = JStr (project_id p)" "members_some db (project_id p) uid" "p \<in> set (projects db)"
proof -
  obtain pid where i: "i = JStr pid"
    using assms by (cases i) (simp_all add: project_findFirst_def)
  with assms have f: "find (\<lambda>p. project_id p = pid \<and> members_some db (project_id p) uid) (projects db) = Some p"
    by (simp add: project_findFirst_def)
  then show "i = JStr (project_id p)" "members_some db (project_id p) uid" "p \<in> set (projects db)"
    using i by (auto simp: find_Some_iff)
qed

lemma project_findFirst_not_member:
  assumes "\<not> members_some db pid uid"
  shows "project_findFirst db (JStr pid) uid = Some None"
  using assms by (auto simp: project_findFirst_def find_None_iff)

lemma task_create_SomeD:
  assumes "task_create db newId title description projectId status priority dueDate assigneeId creatorId
             = Some (t, db')"
  shows "task_id t = newId" "task_creatorId t = creatorId"
    "reqStr status = Some (task_status t)" "reqStr priority = Some (task_priority t)"
    "reqStr projectId = Some (task_projectId t)" "db' = db\<lparr> tasks := tasks db @ [t] \<rparr>"
  using assms
  by (auto simp: task_create_def Let_def split: if_splits bind_splits)

lemma createTask_JsonD:
  assumes "createTask newDate db newId uid b = (Json t, db')"
  shows "\<exists>p. project_findFirst db (b ''projectId'') uid = Some (Some p)"
    "task_create db newId (b ''title'') (b ''description'') (b ''projectId'')
        (js_or (b ''status'') (JStr ''todo'')) (js_or (b ''priority'') (JStr ''medium''))
        (if truthy (b ''dueDate'') then Some (newDate (b ''dueDate'')) else None)
        (b ''assigneeId'') uid = Some (t, db')"
  using assms
  by (auto simp: createTask_def Let_def split: if_splits option.splits)

lemma owner_find_None:
  assumes "\<forall>m \<in> set (projectMembers db). pm_projectId m = pid \<and> pm_userId m = uid \<longrightarrow> pm_role m \<noteq> ''owner''"
  shows "projectMember_findFirst_owner db pid uid = None"
  using assms by (auto simp: projectMember_findFirst_owner_def find_None_iff)

lemma owner_find_Some:
  assumes "\<exists>m \<in> set (projectMembers db). pm_projectId m = pid \<and> pm_userId m = uid \<and> pm_role m = ''owner''"
  shows "\<exists>m. projectMember_findFirst_owner db pid uid = Some m"
proof (cases "projectMember_findFirst_owner db pid uid")
  case None
  with assms show ?thesis by (auto simp: projectMember_findFirst_owner_def find_None_iff)
qed simp

section \<open>Task creation\<close>

lemma find_Some_ex:
  assumes "\<exists>x \<in> set xs. P x"
  shows "\<exists>y. find P xs = Some y"
  using assms by (cases "find P xs") (auto simp: find_None_iff)

lemma project_findFirst_member:
  assumes "project_exists db pid" and "members_some db pid uid"
  shows "\<exists>p. project_findFirst db (JStr pid) uid = Some (Some p)"
proof -
  have "\<exists>x \<in> set (projects db). project_id x = pid \<and> members_some db (project_id x) uid"
    using assms by (auto simp: project_exists_def)
  from find_Some_ex[OF this] show ?thesis by (simp add: project_findFirst_def)
qed

lemma createTask_succeeds:
  assumes "members_some db pid uid" and "project_exists db pid" and "user_exists db uid"
    and "\<forall>x \<in> set (tasks db). task_id x \<noteq> newId"
    and "b ''projectId'' = JStr pid" and "pid \<noteq> []"
    and "b ''title'' = JStr ttl" and "ttl \<noteq> []"
    and "optStr (b ''description'') \<noteq> None"
    and "reqStr (js_or (b ''status'') (JStr ''todo'')) \<noteq> None"
    and "reqStr (js_or (b ''priority'') (JStr ''medium'')) \<noteq> None"
    and "truthy (b ''dueDate'') \<longrightarrow> newDate (b ''dueDate'') \<noteq> InvalidDate"
    and "b ''assigneeId'' = JUndefined \<or> b ''assigneeId'' = JNull
         \<or> (\<exists>a. b ''assigneeId'' = JStr a \<and> user_exists db a)"
  shows "\<exists>t. createTask newDate db newId uid b = (Json t, db\<lparr> tasks := tasks db @ [t] \<rparr>)"
proof -
  obtain p where p: "project_findFirst db (JStr pid) uid = Some (Some p)"
    using project_findFirst_member[OF assms(2,1)] by blast
  obtain d where d: "optStr (b ''description'') = Some d" using assms(9) by auto
  obtain s where s: "reqStr (js_or (b ''status'') (JStr ''todo'')) = Some s" using assms(10) by auto
  obtain pr where pr: "reqStr (js_or (b ''priority'') (JStr ''medium'')) = Some pr" using assms(11) by auto
  have "\<exists>due. optDate (if truthy (b ''dueDate'') then Some (newDate (b ''dueDate'')) else None) = Some due"
    using assms(12) by (cases "newDate (b ''dueDate'')") simp_all
  then obtain due where due: "optDate (if truthy (b ''dueDate'') then Some (newDate (b ''dueDate'')) else None) = Some due"
    by blast
  obtain a where a: "optStr (b ''assigneeId'') = Some a"
    and fk: "(case a of None \<Rightarrow> False | Some u \<Rightarrow> \<not> user_exists db u) = False"
    using assms(13) by auto
  have "task_create db newId (b ''title'') (b ''description'') (b ''projectId'')
        (js_or (b ''status'') (JStr ''todo'')) (js_or (b ''priority'') (JStr ''medium''))
        (if truthy (b ''dueDate'') then Some (newDate (b ''dueDate'')) else None)
        (b ''assigneeId'') uid
     = Some (\<lparr> task_id = newId, task_title = ttl, task_description = d, task_status = s,
                      task_priority = pr, task_dueDate = due, task_projectId = pid,
                      task_creatorId = uid, task_assigneeId = a \<rparr>,
             db\<lparr> tasks := tasks db @ [\<lparr> task_id = newId, task_title = ttl, task_description = d, task_status = s,
                      task_priority = pr, task_dueDate = due, task_projectId = pid,
                      task_creatorId = uid, task_assigneeId = a \<rparr>] \<rparr>)"
    unfolding task_create_def
    using assms(2,3,4,5,7) d s pr due a fk by (simp add: Let_def)
  then show ?thesis
    using p assms(5,6,7,8) by (simp add: createTask_def Let_def)
qed

text \<open>
  C5. Whenever \<^verbatim>\<open>POST /api/tasks\<close> creates a task, the requester is a member of the task's
  project, the task's creator is the authenticated identity, a request without a status
  gives the task the status "todo", a request without a priority gives it the priority
  "medium", the task is the one row added to the store, and a \<^verbatim>\<open>creatorId\<close> property
  sent in the body changes nothing. And a task is created whenever a member of a stored
  project sends a non-empty title and the project's identifier, with values that fit the
  columns (an assignee, if named, being a stored user).
\<close>

theorem createTask_defaults:
  "(createTask newDate db newId uid b = (Json t, db') \<longrightarrow>
        task_creatorId t = uid
      \<and> (b ''status'' = JUndefined \<longrightarrow> task_status t = ''todo'')
      \<and> (b ''priority'' = JUndefined \<longrightarrow> task_priority t = ''medium'')
      \<and> members_some db (task_projectId t) uid
      \<and> tasks db' = tasks db @ [t]
      \<and> createTask newDate db newId uid (b(''creatorId'' := v)) = (Json t, db'))
   \<and> (members_some db pid uid \<and> project_exists db pid \<and> user_exists db uid
        \<and> (\<forall>x \<in> set (tasks db). task_id x \<noteq> newId)
        \<and> b ''projectId'' = JStr pid \<and> pid \<noteq> [] \<and> b ''title'' = JStr ttl \<and> ttl \<noteq> []
        \<and> optStr (b ''description'') \<noteq> None
        \<and> reqStr (js_or (b ''status'') (JStr ''todo'')) \<noteq> None
        \<and> reqStr (js_or (b ''priority'') (JStr ''medium'')) \<noteq> None
        \<and> (truthy (b ''dueDate'') \<longrightarrow> newDate (b ''dueDate'') \<noteq> InvalidDate)
        \<and> (b ''assigneeId'' = JUndefined \<or> b ''assigneeId'' = JNull
             \<or> (\<exists>a. b ''assigneeId'' = JStr a \<and> user_exists db a))
       \<longrightarrow> (\<exists>t'. createTask newDate db newId uid b = (Json t', db\<lparr> tasks := tasks db @ [t'] \<rparr>)))"
  (is "(_ \<longrightarrow> ?P) \<and> (_ \<longrightarrow> ?Q)")
proof (rule conjI; rule impI)
  assume assms: "createTask newDate db newId uid b = (Json t, db')"
  note c = task_create_SomeD[OF createTask_JsonD(2)[OF assms]]
  obtain p where p: "project_findFirst db (b ''projectId'') uid = Some (Some p)"
    using createTask_JsonD(1)[OF assms] by blast
  have same: "createTask newDate db newId uid (b(''creatorId'' := v)) = createTask newDate db newId uid b"
    by (simp add: createTask_def)
  have "b ''projectId'' = JStr (task_projectId t)"
    using c(5) by (cases "b ''projectId''") simp_all
  with project_findFirst_SomeD(1,2)[OF p] have m: "members_some db (task_projectId t) uid"
    by simp
  have s: "b ''status'' = JUndefined \<longrightarrow> task_status t = ''todo''"
    using c(3) by (auto simp: js_or_def)
  have pr: "b ''priority'' = JUndefined \<longrightarrow> task_priority t = ''medium''"
    using c(4) by (auto simp: js_or_def)
  show ?P using c(2,6) same m s pr assms by simp
next
  assume "members_some db pid uid \<and> project_exists db pid \<and> user_exists db uid
        \<and> (\<forall>x \<in> set (tasks db). task_id x \<noteq> newId)
        \<and> b ''projectId'' = JStr pid \<and> pid \<noteq> [] \<and> b ''title'' = JStr ttl \<and> ttl \<noteq> []
        \<and> optStr (b ''description'') \<noteq> None
        \<and> reqStr (js_or (b ''status'') (JStr ''todo'')) \<noteq> None
        \<and> reqStr (js_or (b ''priority'') (JStr ''medium'')) \<noteq> None
        \<and> (truthy (b ''dueDate'') \<longrightarrow> newDate (b ''dueDate'') \<noteq> InvalidDate)
        \<and> (b ''assigneeId'' = JUndefined \<or> b ''assigneeId'' = JNull
             \<or> (\<exists>a. b ''assigneeId'' = JStr a \<and> user_exists db a))"
  then show ?Q
    by (elim conjE) (rule createTask_succeeds)
qed

text \<open>Alice creates "Write docs" in Launch, with and without a forged \<^verbatim>\<open>creatorId\<close>.\<close>

lemma createTask_sample:
  "createTask (\<lambda>v. InvalidDate) db0 ''t2'' ''u1''
       (obj [(''title'', JStr ''Write docs''), (''projectId'', JStr ''p1'')])
     = (Json \<lparr> task_id = ''t2'', task_title = ''Write docs'', task_description = None,
            task_status = ''todo'', task_priority = ''medium'', task_dueDate = None,
            task_projectId = ''p1'', task_creatorId = ''u1'', task_assigneeId = None \<rparr>,
        db0\<lparr> tasks := [docs, \<lparr> task_id = ''t2'', task_title = ''Write docs'', task_description = None,
            task_status = ''todo'', task_priority = ''medium'', task_dueDate = None,
            task_projectId = ''p1'', task_creatorId = ''u1'', task_assigneeId = None \<rparr>] \<rparr>)"
  by (simp add: createTask_def task_create_def project_findFirst_def members_some_def
      project_exists_def user_exists_def js_or_def Let_def sample_defs)

theorem createTask_defaults_witness:
  "createTask (\<lambda>v. InvalidDate) db0 ''t2'' ''u1''
       (obj [(''title'', JStr ''Write docs''), (''projectId'', JStr ''p1'')])
     = (Json \<lparr> task_id = ''t2'', task_title = ''Write docs'', task_description = None,
            task_status = ''todo'', task_priority = ''medium'', task_dueDate = None,
            task_projectId = ''p1'', task_creatorId = ''u1'', task_assigneeId = None \<rparr>,
        db0\<lparr> tasks := [docs, \<lparr> task_id = ''t2'', task_title = ''Write docs'', task_description = None,
            task_status = ''todo'', task_priority = ''medium'', task_dueDate = None,
            task_projectId = ''p1'', task_creatorId = ''u1'', task_assigneeId = None \<rparr>] \<rparr>)
   \<and> members_some db0 ''p1'' ''u1'' \<and> project_exists db0 ''p1'' \<and> user_exists db0 ''u1''
   \<and> map task_id (tasks db0) = [''t1'']
   \<and> createTask (\<lambda>v. InvalidDate) db0 ''t2'' ''u1''
       ((obj [(''title'', JStr ''Write docs''), (''projectId'', JStr ''p1'')])(''creatorId'' := JStr ''u3''))
     = (Json \<lparr> task_id = ''t2'', task_title = ''Write docs'', task_description = None,
            task_status = ''todo'', task_priority = ''medium'', task_dueDate = None,
            task_projectId = ''p1'', task_creatorId = ''u1'', task_assigneeId = None \<rparr>,
        db0\<lparr> tasks := [docs, \<lparr> task_id = ''t2'', task_title = ''Write docs'', task_description = None,
            task_status = ''todo'', task_priority = ''medium'', task_dueDate = None,
            task_projectId = ''p1'', task_creatorId = ''u1'', task_assigneeId = None \<rparr>] \<rparr>)
   \<and> (\<exists>t'. createTask (\<lambda>v. InvalidDate) db0 ''t2'' ''u1''
              (obj [(''title'', JStr ''Write docs''), (''projectId'', JStr ''p1'')])
            = (Json t', db0\<lparr> tasks := tasks db0 @ [t'] \<rparr>))"
proof -
  let ?b = "obj [(''title'', JStr ''Write docs''), (''projectId'', JStr ''p1'')]"
  have h: "members_some db0 ''p1'' ''u1''" "project_exists db0 ''p1''" "user_exists db0 ''u1''"
    "map task_id (tasks db0) = [''t1'']"
    by (simp_all add: members_some_def project_exists_def user_exists_def sample_defs)
  have g: "\<forall>x \<in> set (tasks db0). task_id x \<noteq> ''t2''"
    by (simp add: sample_defs)
  have f: "?b ''projectId'' = JStr ''p1'' \<and> ''p1'' \<noteq> [] \<and> ?b ''title'' = JStr ''Write docs''
        \<and> ''Write docs'' \<noteq> []
        \<and> optStr (?b ''description'') \<noteq> None
        \<and> reqStr (js_or (?b ''status'') (JStr ''todo'')) \<noteq> None
        \<and> reqStr (js_or (?b ''priority'') (JStr ''medium'')) \<noteq> None
        \<and> (truthy (?b ''dueDate'') \<longrightarrow> (\<lambda>v. InvalidDate) (?b ''dueDate'') \<noteq> InvalidDate)
        \<and> (?b ''assigneeId'' = JUndefined \<or> ?b ''assigneeId'' = JNull
             \<or> (\<exists>a. ?b ''assigneeId'' = JStr a \<and> user_exists db0 a))"
    by (simp add: obj_def js_or_def)
  note w = createTask_defaults [where newDate = "\<lambda>v. InvalidDate" and db = db0 and newId = "''t2''"
      and uid = "''u1''" and b = ?b and pid = "''p1''" and ttl = "''Write docs''"
      and v = "JStr ''u3''"
      and t = "\<lparr> task_id = ''t2'', task_title = ''Write docs'', task_description = None,
            task_status = ''todo'', task_priority = ''medium'', task_dueDate = None,
            task_projectId = ''p1'', task_creatorId = ''u1'', task_assigneeId = None \<rparr>"
      and db' = "db0\<lparr> tasks := [docs, \<lparr> task_id = ''t2'', task_title = ''Write docs'', task_description = None,
            task_status = ''todo'', task_priority = ''medium'', task_dueDate = None,
            task_projectId = ''p1'', task_creatorId = ''u1'', task_assigneeId = None \<rparr>] \<rparr>"]
  from w createTask_sample have 1: "createTask (\<lambda>v. InvalidDate) db0 ''t2'' ''u1'' (?b(''creatorId'' := JStr ''u3''))
     = (Json \<lparr> task_id = ''t2'', task_title = ''Write docs'', task_description = None,
            task_status = ''todo'', task_priority = ''medium'', task_dueDate = None,
            task_projectId = ''p1'', task_creatorId = ''u1'', task_assigneeId = None \<rparr>,
        db0\<lparr> tasks := [docs, \<lparr> task_id = ''t2'', task_title = ''Write docs'', task_description = None,
            task_status = ''todo'', task_priority = ''medium'', task_dueDate = None,
            task_projectId = ''p1'', task_creatorId = ''u1'', task_assigneeId = None \<rparr>] \<rparr>)"
    by blast
  from w h(1,2,3) g f have 2: "\<exists>t'. createTask (\<lambda>v. InvalidDate) db0 ''t2'' ''u1'' ?b
            = (Json t', db0\<lparr> tasks := tasks db0 @ [t'] \<rparr>)"
    by blast
  show ?thesis
    by (intro conjI) (rule createTask_sample 1 2 h)+
qed

text \<open>
  C7. A task creation that names a project which is not stored and one that names a
  stored project without a membership of the requester get the same response and leave
  their stores as they were; when the request carries a title and a project identifier,
  that response is the 404 "Project not found".
\<close>

theorem createTask_hidden_project:
  assumes "\<not> project_exists db1 pid"
    and "project_exists db2 pid" and "\<not> members_some db2 pid uid"
    and "b ''projectId'' = JStr pid"
  shows "fst (createTask newDate db1 id1 uid b) = fst (createTask newDate db2 id2 uid b)
       \<and> snd (createTask newDate db1 id1 uid b) = db1
       \<and> snd (createTask newDate db2 id2 uid b) = db2
       \<and> (truthy (b ''title'') \<and> pid \<noteq> [] \<longrightarrow>
            fst (createTask newDate db2 id2 uid b) = Err 404 ''Project not found'')"
proof -
  have 1: "project_findFirst db1 (JStr pid) uid = Some None"
    using assms(1) by (auto simp: project_findFirst_def find_None_iff project_exists_def)
  have 2: "project_findFirst db2 (JStr pid) uid = Some None"
    using assms(3) by (rule project_findFirst_not_member)
  show ?thesis
    using 1 2 assms(4) by (simp add: createTask_def Let_def)
qed

theorem createTask_hidden_project_witness:
  "\<not> project_exists db_empty ''p1'' \<and> project_exists db0 ''p1'' \<and> \<not> members_some db0 ''p1'' ''u3''
   \<and> fst (createTask (\<lambda>v. InvalidDate) db_empty ''t2'' ''u3''
             (obj [(''title'', JStr ''x''), (''projectId'', JStr ''p1'')]))
     = Err 404 ''Project not found''
   \<and> fst (createTask (\<lambda>v. InvalidDate) db0 ''t2'' ''u3''
             (obj [(''title'', JStr ''x''), (''projectId'', JStr ''p1'')]))
     = Err 404 ''Project not found''"
proof -
  have h1: "\<not> project_exists db_empty ''p1''" by (simp add: project_exists_def db_empty_def)
  have h2: "project_exists db0 ''p1''" by (simp add: project_exists_def sample_defs)
  have h3: "\<not> members_some db0 ''p1'' ''u3''" by (simp add: members_some_def sample_defs)
  have h4: "(obj [(''title'', JStr ''x''), (''projectId'', JStr ''p1'')]) ''projectId'' = JStr ''p1''"
    by (simp add: obj_def)
  show ?thesis
    using createTask_hidden_project [where ?db1.0 = db_empty and ?db2.0 = db0 and pid = "''p1''"
        and uid = "''u3''" and b = "obj [(''title'', JStr ''x''), (''projectId'', JStr ''p1'')]"
        and newDate = "\<lambda>v. InvalidDate" and ?id1.0 = "''t2''" and ?id2.0 = "''t2''"] h1 h2 h3 h4
    by (simp add: obj_def)
qed

section \<open>Project deletion\<close>

text \<open>
  C3. When no membership row gives the requester the role "owner" in the project (so in
  particular when the requester is a member with another role),
  \<^verbatim>\<open>DELETE /api/projects/:id\<close> answers 403 and leaves the store, hence the project row,
  as it was.
\<close>

theorem deleteProject_not_owner:
  assumes "\<forall>m \<in> set (projectMembers db).
             pm_projectId m = pid \<and> pm_userId m = uid \<longrightarrow> pm_role m \<noteq> ''owner''"
  shows "deleteProject db uid pid = (Err 403 ''Only owner can delete project'', db)
       \<and> Forbidden (fst (deleteProject db uid pid))
       \<and> project_exists (snd (deleteProject db uid pid)) pid = project_exists db pid"
  using owner_find_None [OF assms] by (simp add: deleteProject_def Forbidden_def)

text \<open>Bob, a member of Launch with the role "member", may not delete it.\<close>

theorem deleteProject_not_owner_witness:
  "members_some db0 ''p1'' ''u2''
   \<and> deleteProject db0 ''u2'' ''p1'' = (Err 403 ''Only owner can delete project'', db0)
   \<and> project_exists db0 ''p1''"
proof -
  have h: "\<forall>m \<in> set (projectMembers db0).
             pm_projectId m = ''p1'' \<and> pm_userId m = ''u2'' \<longrightarrow> pm_role m \<noteq> ''owner''"
    by (simp add: sample_defs)
  show ?thesis using deleteProject_not_owner [OF h]
    by (simp add: members_some_def project_exists_def sample_defs)
qed

text \<open>
  C4. When the requester holds the role "owner" in a stored project,
  \<^verbatim>\<open>DELETE /api/projects/:id\<close> succeeds, and afterwards the store holds neither the project
  row nor a membership or task row of that project; if no task row referred to a missing
  project before, none does afterwards.
\<close>

theorem deleteProject_owner_cascade:
  assumes "\<exists>m \<in> set (projectMembers db).
             pm_projectId m = pid \<and> pm_userId m = uid \<and> pm_role m = ''owner''"
    and "project_exists db pid"
  shows "fst (deleteProject db uid pid) = Json ()
       \<and> \<not> project_exists (snd (deleteProject db uid pid)) pid
       \<and> (\<forall>m \<in> set (projectMembers (snd (deleteProject db uid pid))). pm_projectId m \<noteq> pid)
       \<and> (\<forall>t \<in> set (tasks (snd (deleteProject db uid pid))). task_projectId t \<noteq> pid)
       \<and> (no_orphan_tasks db \<longrightarrow> no_orphan_tasks (snd (deleteProject db uid pid)))"
proof -
  obtain m where m: "projectMember_findFirst_owner db pid uid = Some m"
    using owner_find_Some [OF assms(1)] by blast
  have d: "deleteProject db uid pid = (Json (), the (project_delete db pid))"
    using m assms(2) by (simp add: deleteProject_def project_delete_def Let_def)
  have "no_orphan_tasks db \<Longrightarrow> no_orphan_tasks (the (project_delete db pid))"
    using assms(2) unfolding no_orphan_tasks_def project_delete_def project_exists_def Let_def
    by simp metis
  then show ?thesis
    using d assms(2) by (auto simp: project_delete_def project_exists_def Let_def)
qed

text \<open>Alice, the owner, deletes Launch: its two memberships and its task go with it.\<close>

theorem deleteProject_owner_cascade_witness:
  "deleteProject db0 ''u1'' ''p1'' = (Json (), db_empty) \<and> no_orphan_tasks db0 \<and> no_orphan_tasks db_empty"
proof -
  have h1: "\<exists>m \<in> set (projectMembers db0).
             pm_projectId m = ''p1'' \<and> pm_userId m = ''u1'' \<and> pm_role m = ''owner''"
    by (simp add: sample_defs)
  have h2: "project_exists db0 ''p1''" by (simp add: project_exists_def sample_defs)
  have h3: "no_orphan_tasks db0" by (simp add: no_orphan_tasks_def project_exists_def sample_defs)
  have e: "deleteProject db0 ''u1'' ''p1'' = (Json (), db_empty)"
    by (simp add: deleteProject_def projectMember_findFirst_owner_def project_delete_def
        project_exists_def Let_def db_empty_def sample_defs)
  show ?thesis using deleteProject_owner_cascade [OF h1 h2] h3 e by simp
qed

section \<open>Task update\<close>

lemma task_updateMany_Some_cases:
  assumes "task_updateMany db tid uid ti de st pr du asg = Some (n, db')"
  shows "(n = 0 \<and> db' = db) \<or> (\<exists>t d s p due a.
           updReq ti = Some t \<and> updOpt de = Some d \<and> updReq st = Some s \<and> updReq pr = Some p
         \<and> updDate du = Some due \<and> updOpt asg = Some a
         \<and> n = length (filter (\<lambda>x. task_id x = tid \<and> task_visible db uid x) (tasks db))
         \<and> db' = db\<lparr> tasks := map (\<lambda>x. if task_id x = tid \<and> task_visible db uid x
                        then x\<lparr> task_title := setcol t (task_title x),
                               task_description := setcol d (task_description x),
                               task_status := setcol s (task_status x),
                               task_priority := setcol p (task_priority x),
                               task_dueDate := setcol due (task_dueDate x),
                               task_assigneeId := setcol a (task_assigneeId x) \<rparr>
                        else x) (tasks db) \<rparr>)"
  using assms
  by (auto simp: task_updateMany_def Let_def split: bind_splits if_splits)

lemma task_updateMany_SomeD:
  assumes "task_updateMany db tid uid ti de st pr du asg = Some (n, db')" and "0 < n"
  shows "\<exists>t d s p due a.
           updReq ti = Some t \<and> updOpt de = Some d \<and> updReq st = Some s \<and> updReq pr = Some p
         \<and> updDate du = Some due \<and> updOpt asg = Some a
         \<and> n = length (filter (\<lambda>x. task_id x = tid \<and> task_visible db uid x) (tasks db))
         \<and> db' = db\<lparr> tasks := map (\<lambda>x. if task_id x = tid \<and> task_visible db uid x
                        then x\<lparr> task_title := setcol t (task_title x),
                               task_description := setcol d (task_description x),
                               task_status := setcol s (task_status x),
                               task_priority := setcol p (task_priority x),
                               task_dueDate := setcol due (task_dueDate x),
                               task_assigneeId := setcol a (task_assigneeId x) \<rparr>
                        else x) (tasks db) \<rparr>"
  using task_updateMany_Some_cases[OF assms(1)] assms(2) by simp

lemma updateTask_JsonD:
  assumes "updateTask newDate db uid tid b = (Json r, db')"
  shows "\<exists>n. n > 0 \<and> task_updateMany db tid uid (present (b ''title'')) (present (b ''description''))
            (present (b ''status'')) (present (b ''priority''))
            (if b ''dueDate'' \<noteq> JUndefined
             then Some (if truthy (b ''dueDate'') then Some (newDate (b ''dueDate'')) else None) else None)
            (present (b ''assigneeId'')) = Some (n, db')"
    and "r = task_findUnique db' tid"
  using assms
  by (auto simp: updateTask_def Let_def split: option.splits if_splits)

lemma setcol_updReq:
  assumes "updReq (present v) = Some c"
  shows "if v = JUndefined then setcol c old = old else v = JStr (setcol c old)"
  using assms by (cases v) (auto simp: present_def setcol_def)

lemma setcol_updOpt:
  assumes "updOpt (present v) = Some c"
  shows "if v = JUndefined then setcol c old = old
         else if v = JNull then setcol c old = None
         else \<exists>s. v = JStr s \<and> setcol c old = Some s"
  using assms by (cases v) (auto simp: present_def setcol_def)

lemma setcol_updDate:
  assumes "updDate (if v \<noteq> JUndefined then Some (if truthy v then Some x else None) else None) = Some c"
  shows "if v = JUndefined then setcol c old = old
         else if truthy v then \<exists>ms. x = Date ms \<and> setcol c old = Some ms
         else setcol c old = None"
  using assms by (cases x) (auto simp: setcol_def split: if_splits)

lemma list_all2_map_self:
  assumes "\<And>x. R x (g x)"
  shows "list_all2 R xs (map g xs)"
  using assms by (simp add: list_all2_map2 list_all2_same)

lemma updReq_present_None:
  assumes "updReq (present v) = Some None"
  shows "v = JUndefined"
  using assms by (cases v) (simp_all add: present_def)

lemma updOpt_present_None:
  assumes "updOpt (present v) = Some None"
  shows "v = JUndefined"
  using assms by (cases v) (simp_all add: present_def)

lemma updDate_None:
  assumes "updDate (if v \<noteq> JUndefined then Some x else None) = Some None"
  shows "v = JUndefined"
proof (rule ccontr)
  assume "v \<noteq> JUndefined"
  with assms have u: "updDate (Some x) = Some None" by simp
  show False
  proof (cases x)
    case None
    with u show ?thesis by simp
  next
    case (Some d)
    with u show ?thesis by (cases d) simp_all
  qed
qed

lemma updateTask_succeeds:
  assumes "\<exists>old \<in> set (tasks db). task_id old = tid \<and> task_visible db uid old"
    and "updReq (present (b ''title'')) \<noteq> None"
    and "updOpt (present (b ''description'')) \<noteq> None"
    and "updReq (present (b ''status'')) \<noteq> None"
    and "updReq (present (b ''priority'')) \<noteq> None"
    and "truthy (b ''dueDate'') \<longrightarrow> newDate (b ''dueDate'') \<noteq> InvalidDate"
    and "b ''assigneeId'' = JUndefined \<or> b ''assigneeId'' = JNull
         \<or> (\<exists>a. b ''assigneeId'' = JStr a \<and> user_exists db a)"
    and "b ''title'' \<noteq> JUndefined \<or> b ''description'' \<noteq> JUndefined \<or> b ''status'' \<noteq> JUndefined
         \<or> b ''priority'' \<noteq> JUndefined \<or> b ''dueDate'' \<noteq> JUndefined
         \<or> b ''assigneeId'' \<noteq> JUndefined"
  shows "\<exists>r db'. updateTask newDate db uid tid b = (Json r, db')"
proof -
  obtain t where t: "updReq (present (b ''title'')) = Some t" using assms(2) by auto
  obtain d where d: "updOpt (present (b ''description'')) = Some d" using assms(3) by auto
  obtain s where s: "updReq (present (b ''status'')) = Some s" using assms(4) by auto
  obtain p where p: "updReq (present (b ''priority'')) = Some p" using assms(5) by auto
  have "\<exists>due. updDate (if b ''dueDate'' \<noteq> JUndefined
             then Some (if truthy (b ''dueDate'') then Some (newDate (b ''dueDate'')) else None) else None) = Some due"
    using assms(6) by (cases "newDate (b ''dueDate'')") simp_all
  then obtain due where due: "updDate (if b ''dueDate'' \<noteq> JUndefined
             then Some (if truthy (b ''dueDate'') then Some (newDate (b ''dueDate'')) else None) else None) = Some due"
    by blast
  obtain a where a: "updOpt (present (b ''assigneeId'')) = Some a"
    and fk: "(case a of Some (Some u) \<Rightarrow> \<not> user_exists db u | _ \<Rightarrow> False) = False"
    using assms(7) by (auto simp: present_def)
  have n: "length (filter (\<lambda>x. task_id x = tid \<and> task_visible db uid x) (tasks db)) \<noteq> 0"
    using assms(1) by (simp add: filter_empty_conv)
  have ne: "\<not> (t = None \<and> d = None \<and> s = None \<and> p = None \<and> due = None \<and> a = None)"
  proof
    assume all: "t = None \<and> d = None \<and> s = None \<and> p = None \<and> due = None \<and> a = None"
    have "b ''title'' = JUndefined" using t all by (intro updReq_present_None) simp
    moreover have "b ''description'' = JUndefined" using d all by (intro updOpt_present_None) simp
    moreover have "b ''status'' = JUndefined" using s all by (intro updReq_present_None) simp
    moreover have "b ''priority'' = JUndefined" using p all by (intro updReq_present_None) simp
    moreover have "b ''dueDate'' = JUndefined" using due all by (intro updDate_None) simp
    moreover have "b ''assigneeId'' = JUndefined" using a all by (intro updOpt_present_None) simp
    ultimately show False using assms(8) by simp
  qed
  have "\<exists>n db'. n \<noteq> 0 \<and> task_updateMany db tid uid (present (b ''title'')) (present (b ''description''))
            (present (b ''status'')) (present (b ''priority''))
            (if b ''dueDate'' \<noteq> JUndefined
             then Some (if truthy (b ''dueDate'') then Some (newDate (b ''dueDate'')) else None) else None)
            (present (b ''assigneeId'')) = Some (n, db')"
    unfolding task_updateMany_def using t d s p due a fk n ne by (simp add: Let_def)
  then show ?thesis
    by (auto simp: updateTask_def Let_def)
qed

text \<open>
  C6. Whenever \<^verbatim>\<open>PUT /api/tasks/:id\<close> succeeds, some stored task has the requested
  identifier and lies in a project of the requester; every such task keeps its
  identifier, project and creator; each of title, description, status, priority, dueDate
  and assigneeId that the body leaves out keeps its value, and each that the body
  carries takes the body's value (\<^verbatim>\<open>null\<close> empties description and assigneeId; a dueDate
  that is \<^verbatim>\<open>null\<close>, or otherwise falsy, clears the due date, a truthy one is stored as
  the date it denotes). Every other task row and every other table is unchanged. And the
  request succeeds whenever such a task is stored, the body carries at least one of the
  six fields, and the values it carries fit the columns (an assignee, if named, being a
  stored user).
\<close>

theorem updateTask_partial:
  "(updateTask newDate db uid tid b = (Json r, db') \<longrightarrow>
         users db' = users db \<and> projects db' = projects db \<and> projectMembers db' = projectMembers db
       \<and> comments db' = comments db \<and> attachments db' = attachments db
       \<and> (\<exists>old \<in> set (tasks db). task_id old = tid \<and> task_visible db uid old)
       \<and> list_all2 (\<lambda>old new.
            if task_id old = tid \<and> task_visible db uid old
            then task_id new = task_id old \<and> task_projectId new = task_projectId old
               \<and> task_creatorId new = task_creatorId old
               \<and> (if b ''title'' = JUndefined then task_title new = task_title old
                   else b ''title'' = JStr (task_title new))
               \<and> (if b ''description'' = JUndefined then task_description new = task_description old
                   else if b ''description'' = JNull then task_description new = None
                   else \<exists>s. b ''description'' = JStr s \<and> task_description new = Some s)
               \<and> (if b ''status'' = JUndefined then task_status new = task_status old
                   else b ''status'' = JStr (task_status new))
               \<and> (if b ''priority'' = JUndefined then task_priority new = task_priority old
                   else b ''priority'' = JStr (task_priority new))
               \<and> (if b ''dueDate'' = JUndefined then task_dueDate new = task_dueDate old
                   else if truthy (b ''dueDate'')
                        then \<exists>ms. newDate (b ''dueDate'') = Date ms \<and> task_dueDate new = Some ms
                        else task_dueDate new = None)
               \<and> (b ''dueDate'' = JNull \<longrightarrow> task_dueDate new = None)
               \<and> (if b ''assigneeId'' = JUndefined then task_assigneeId new = task_assigneeId old
                   else if b ''assigneeId'' = JNull then task_assigneeId new = None
                   else \<exists>s. b ''assigneeId'' = JStr s \<and> task_assigneeId new = Some s)
            else new = old) (tasks db) (tasks db'))
   \<and> ((\<exists>old \<in> set (tasks db). task_id old = tid \<and> task_visible db uid old)
        \<and> updReq (present (b ''title'')) \<noteq> None
        \<and> updOpt (present (b ''description'')) \<noteq> None
        \<and> updReq (present (b ''status'')) \<noteq> None
        \<and> updReq (present (b ''priority'')) \<noteq> None
        \<and> (truthy (b ''dueDate'') \<longrightarrow> newDate (b ''dueDate'') \<noteq> InvalidDate)
        \<and> (b ''assigneeId'' = JUndefined \<or> b ''assigneeId'' = JNull
             \<or> (\<exists>a. b ''assigneeId'' = JStr a \<and> user_exists db a))
        \<and> (b ''title'' \<noteq> JUndefined \<or> b ''description'' \<noteq> JUndefined
             \<or> b ''status'' \<noteq> JUndefined \<or> b ''priority'' \<noteq> JUndefined
             \<or> b ''dueDate'' \<noteq> JUndefined \<or> b ''assigneeId'' \<noteq> JUndefined)
       \<longrightarrow> (\<exists>r' db''. updateTask newDate db uid tid b = (Json r', db'')))"
    (is "(_ \<longrightarrow> ?A1 \<and> ?A2 \<and> ?A3 \<and> ?A4 \<and> ?A5 \<and> ?A6 \<and> list_all2 ?R _ _) \<and> (_ \<longrightarrow> ?Q)")
proof (rule conjI; rule impI)
  assume assms: "updateTask newDate db uid tid b = (Json r, db')"
  obtain n where n: "n > 0" and
    u: "task_updateMany db tid uid (present (b ''title'')) (present (b ''description''))
            (present (b ''status'')) (present (b ''priority''))
            (if b ''dueDate'' \<noteq> JUndefined
             then Some (if truthy (b ''dueDate'') then Some (newDate (b ''dueDate'')) else None) else None)
            (present (b ''assigneeId'')) = Some (n, db')"
    using updateTask_JsonD(1)[OF assms] by blast
  from task_updateMany_SomeD[OF u n] obtain t d s p due a where
    t: "updReq (present (b ''title'')) = Some t" and
    d: "updOpt (present (b ''description'')) = Some d" and
    s: "updReq (present (b ''status'')) = Some s" and
    p: "updReq (present (b ''priority'')) = Some p" and
    due: "updDate (if b ''dueDate'' \<noteq> JUndefined
             then Some (if truthy (b ''dueDate'') then Some (newDate (b ''dueDate'')) else None) else None) = Some due" and
    a: "updOpt (present (b ''assigneeId'')) = Some a" and
    len: "n = length (filter (\<lambda>x. task_id x = tid \<and> task_visible db uid x) (tasks db))" and
    db': "db' = db\<lparr> tasks := map (\<lambda>x. if task_id x = tid \<and> task_visible db uid x
                        then x\<lparr> task_title := setcol t (task_title x),
                               task_description := setcol d (task_description x),
                               task_status := setcol s (task_status x),
                               task_priority := setcol p (task_priority x),
                               task_dueDate := setcol due (task_dueDate x),
                               task_assigneeId := setcol a (task_assigneeId x) \<rparr>
                        else x) (tasks db) \<rparr>"
    by blast
  have ex: "\<exists>old \<in> set (tasks db). task_id old = tid \<and> task_visible db uid old"
  proof -
    from n len have "filter (\<lambda>x. task_id x = tid \<and> task_visible db uid x) (tasks db) \<noteq> []"
      by auto
    then show ?thesis by (simp add: filter_empty_conv)
  qed
  have row: "?R x (if task_id x = tid \<and> task_visible db uid x
                        then x\<lparr> task_title := setcol t (task_title x),
                               task_description := setcol d (task_description x),
                               task_status := setcol s (task_status x),
                               task_priority := setcol p (task_priority x),
                               task_dueDate := setcol due (task_dueDate x),
                               task_assigneeId := setcol a (task_assigneeId x) \<rparr>
                        else x)" for x
  proof (cases "task_id x = tid \<and> task_visible db uid x")
    case True
    note f1 = setcol_updReq[OF t, of "task_title x"]
    note f2 = setcol_updOpt[OF d, of "task_description x"]
    note f3 = setcol_updReq[OF s, of "task_status x"]
    note f4 = setcol_updReq[OF p, of "task_priority x"]
    note f5 = setcol_updDate[where v = "b ''dueDate''" and x = "newDate (b ''dueDate'')", OF due,
        of "task_dueDate x"]
    note f6 = setcol_updOpt[OF a, of "task_assigneeId x"]
    show ?thesis
      using True f1 f2 f3 f4 f5 f6 by simp
  next
    case False
    show ?thesis by (simp only: False if_False)
  qed
  have eq: "users db' = users db" "projects db' = projects db"
    "projectMembers db' = projectMembers db" "comments db' = comments db"
    "attachments db' = attachments db"
    by (simp_all add: db')
  have "list_all2 ?R (tasks db) (map (\<lambda>x. if task_id x = tid \<and> task_visible db uid x
                        then x\<lparr> task_title := setcol t (task_title x),
                               task_description := setcol d (task_description x),
                               task_status := setcol s (task_status x),
                               task_priority := setcol p (task_priority x),
                               task_dueDate := setcol due (task_dueDate x),
                               task_assigneeId := setcol a (task_assigneeId x) \<rparr>
                        else x) (tasks db))"
    by (rule list_all2_map_self) (rule row)
  moreover have "tasks db' = map (\<lambda>x. if task_id x = tid \<and> task_visible db uid x
                        then x\<lparr> task_title := setcol t (task_title x),
                               task_description := setcol d (task_description x),
                               task_status := setcol s (task_status x),
                               task_priority := setcol p (task_priority x),
                               task_dueDate := setcol due (task_dueDate x),
                               task_assigneeId := setcol a (task_assigneeId x) \<rparr>
                        else x) (tasks db)"
    by (simp add: db')
  ultimately have rows: "list_all2 ?R (tasks db) (tasks db')"
    by (simp only:)
  show "?A1 \<and> ?A2 \<and> ?A3 \<and> ?A4 \<and> ?A5 \<and> ?A6 \<and> list_all2 ?R (tasks db) (tasks db')"
    by (intro conjI) (rule eq ex rows)+
next
  assume "(\<exists>old \<in> set (tasks db). task_id old = tid \<and> task_visible db uid old)
        \<and> updReq (present (b ''title'')) \<noteq> None
        \<and> updOpt (present (b ''description'')) \<noteq> None
        \<and> updReq (present (b ''status'')) \<noteq> None
        \<and> updReq (present (b ''priority'')) \<noteq> None
        \<and> (truthy (b ''dueDate'') \<longrightarrow> newDate (b ''dueDate'') \<noteq> InvalidDate)
        \<and> (b ''assigneeId'' = JUndefined \<or> b ''assigneeId'' = JNull
             \<or> (\<exists>a. b ''assigneeId'' = JStr a \<and> user_exists db a))
        \<and> (b ''title'' \<noteq> JUndefined \<or> b ''description'' \<noteq> JUndefined
             \<or> b ''status'' \<noteq> JUndefined \<or> b ''priority'' \<noteq> JUndefined
             \<or> b ''dueDate'' \<noteq> JUndefined \<or> b ''assigneeId'' \<noteq> JUndefined)"
  then show ?Q
    by (elim conjE) (rule updateTask_succeeds)
qed


text \<open>Bob moves "Write docs" to "in_progress" and clears its due date.\<close>

lemma updateTask_sample:
  "updateTask (\<lambda>v. InvalidDate) db0 ''u2'' ''t1''
      (obj [(''status'', JStr ''in_progress''), (''dueDate'', JNull)])
   = (Json (Some (docs\<lparr> task_status := ''in_progress'', task_dueDate := None \<rparr>)),
      db0\<lparr> tasks := [docs\<lparr> task_status := ''in_progress'', task_dueDate := None \<rparr>] \<rparr>)"
  by (simp add: updateTask_def task_updateMany_def task_findUnique_def task_visible_def
      members_some_def present_def setcol_def user_exists_def Let_def sample_defs)

theorem updateTask_partial_witness:
  "updateTask (\<lambda>v. InvalidDate) db0 ''u2'' ''t1''
      (obj [(''status'', JStr ''in_progress''), (''dueDate'', JNull)])
   = (Json (Some (docs\<lparr> task_status := ''in_progress'', task_dueDate := None \<rparr>)),
      db0\<lparr> tasks := [docs\<lparr> task_status := ''in_progress'', task_dueDate := None \<rparr>] \<rparr>)
   \<and> (\<exists>old \<in> set (tasks db0). task_id old = ''t1'' \<and> task_visible db0 ''u2'' old)
   \<and> task_dueDate docs = Some 1767225600000
   \<and> task_title (docs\<lparr> task_status := ''in_progress'', task_dueDate := None \<rparr>) = ''Write docs''
   \<and> (\<exists>r' db''. updateTask (\<lambda>v. InvalidDate) db0 ''u2'' ''t1''
          (obj [(''status'', JStr ''in_progress''), (''dueDate'', JNull)]) = (Json r', db''))"
proof -
  let ?b = "obj [(''status'', JStr ''in_progress''), (''dueDate'', JNull)]"
  note w = updateTask_partial [where newDate = "\<lambda>v. InvalidDate" and db = db0 and uid = "''u2''"
      and tid = "''t1''" and b = ?b
      and r = "Some (docs\<lparr> task_status := ''in_progress'', task_dueDate := None \<rparr>)"
      and db' = "db0\<lparr> tasks := [docs\<lparr> task_status := ''in_progress'', task_dueDate := None \<rparr>] \<rparr>"]
  from w updateTask_sample
  have 1: "\<exists>old \<in> set (tasks db0). task_id old = ''t1'' \<and> task_visible db0 ''u2'' old"
    by blast
  have f: "updReq (present (?b ''title'')) \<noteq> None
        \<and> updOpt (present (?b ''description'')) \<noteq> None
        \<and> updReq (present (?b ''status'')) \<noteq> None
        \<and> updReq (present (?b ''priority'')) \<noteq> None
        \<and> (truthy (?b ''dueDate'') \<longrightarrow> (\<lambda>v. InvalidDate) (?b ''dueDate'') \<noteq> InvalidDate)
        \<and> (?b ''assigneeId'' = JUndefined \<or> ?b ''assigneeId'' = JNull
             \<or> (\<exists>a. ?b ''assigneeId'' = JStr a \<and> user_exists db0 a))
        \<and> (?b ''title'' \<noteq> JUndefined \<or> ?b ''description'' \<noteq> JUndefined
             \<or> ?b ''status'' \<noteq> JUndefined \<or> ?b ''priority'' \<noteq> JUndefined
             \<or> ?b ''dueDate'' \<noteq> JUndefined \<or> ?b ''assigneeId'' \<noteq> JUndefined)"
    by (simp add: obj_def present_def)
  from w 1 f have 2: "\<exists>r' db''. updateTask (\<lambda>v. InvalidDate) db0 ''u2'' ''t1'' ?b = (Json r', db'')"
    by blast
  have 3: "task_dueDate docs = Some 1767225600000"
    "task_title (docs\<lparr> task_status := ''in_progress'', task_dueDate := None \<rparr>) = ''Write docs''"
    by (simp_all add: docs_def)
  show ?thesis
    by (intro conjI) (rule updateTask_sample 1 2 3)+
qed

section \<open>Status and priority of stored tasks\<close>

lemma createTask_snd:
  "snd (createTask newDate db newId uid b) = db \<or>
   (\<exists>t. createTask newDate db newId uid b = (Json t, snd (createTask newDate db newId uid b)))"
  by (auto simp: createTask_def Let_def split: option.splits)

lemma createTask_tasks_valid:
  assumes "tasks_valid db" and "names_listed b"
  shows "tasks_valid (snd (createTask newDate db newId uid b))"
proof -
  consider "snd (createTask newDate db newId uid b) = db"
    | t where "createTask newDate db newId uid b = (Json t, snd (createTask newDate db newId uid b))"
    using createTask_snd by blast
  then show ?thesis
  proof cases
    case 1
    then show ?thesis using assms(1) by simp
  next
    case 2
    note c = task_create_SomeD[OF createTask_JsonD(2)[OF 2]]
    have s: "valid_status (task_status t)"
      using c(3) assms(2)
      by (cases "b ''status''") (auto simp: js_or_def names_listed_def valid_status_def split: if_splits)
    have p: "valid_priority (task_priority t)"
      using c(4) assms(2)
      by (cases "b ''priority''") (auto simp: js_or_def names_listed_def valid_priority_def split: if_splits)
    show ?thesis
      using assms(1) s p c(6) by (simp add: tasks_valid_def)
  qed
qed

lemma updateTask_snd:
  "snd (updateTask newDate db uid tid b) = db \<or>
   (\<exists>n. task_updateMany db tid uid (present (b ''title'')) (present (b ''description''))
            (present (b ''status'')) (present (b ''priority''))
            (if b ''dueDate'' \<noteq> JUndefined
             then Some (if truthy (b ''dueDate'') then Some (newDate (b ''dueDate'')) else None) else None)
            (present (b ''assigneeId'')) = Some (n, snd (updateTask newDate db uid tid b)))"
  by (auto simp: updateTask_def Let_def split: option.splits)

lemma updateTask_tasks_valid:
  assumes "tasks_valid db" and "names_listed b"
  shows "tasks_valid (snd (updateTask newDate db uid tid b))"
proof -
  let ?db' = "snd (updateTask newDate db uid tid b)"
  consider "?db' = db"
    | n where "task_updateMany db tid uid (present (b ''title'')) (present (b ''description''))
            (present (b ''status'')) (present (b ''priority''))
            (if b ''dueDate'' \<noteq> JUndefined
             then Some (if truthy (b ''dueDate'') then Some (newDate (b ''dueDate'')) else None) else None)
            (present (b ''assigneeId'')) = Some (n, ?db')"
    using updateTask_snd by blast
  then show ?thesis
  proof cases
    case 1
    then show ?thesis using assms(1) by simp
  next
    case 2
    show ?thesis
    proof (cases "?db' = db")
      case True
      then show ?thesis using assms(1) by simp
    next
      case False
    with task_updateMany_Some_cases[OF 2] obtain t d s p due a where
      s: "updReq (present (b ''status'')) = Some s" and
      p: "updReq (present (b ''priority'')) = Some p" and
      db': "?db' = db\<lparr> tasks := map (\<lambda>x. if task_id x = tid \<and> task_visible db uid x
                        then x\<lparr> task_title := setcol t (task_title x),
                               task_description := setcol d (task_description x),
                               task_status := setcol s (task_status x),
                               task_priority := setcol p (task_priority x),
                               task_dueDate := setcol due (task_dueDate x),
                               task_assigneeId := setcol a (task_assigneeId x) \<rparr>
                        else x) (tasks db) \<rparr>"
      by blast
    have vs: "valid_status (setcol s old)" if "valid_status old" for old
      using setcol_updReq[OF s, of old] that assms(2)
      by (cases "b ''status''") (auto simp: names_listed_def split: if_splits)
    have vp: "valid_priority (setcol p old)" if "valid_priority old" for old
      using setcol_updReq[OF p, of old] that assms(2)
      by (cases "b ''priority''") (auto simp: names_listed_def split: if_splits)
    show ?thesis
      unfolding db' using assms(1) vs vp by (auto simp: tasks_valid_def)
    qed
  qed
qed

text \<open>
  C9, as the code has it. The handlers store the status and the priority a request names
  without comparing them with the listed values. So the listed values are kept by every
  sequence of task creations and task updates in which each request names no status or
  a listed one, and no priority or a listed one: starting from a store whose tasks all
  carry listed values, every task of the resulting store does.
\<close>

theorem tasks_valid_run:
  assumes "tasks_valid db" and "\<forall>x \<in> set ops. names_listed (op_body x)"
  shows "tasks_valid (run newDate db ops)"
  using assms
proof (induction ops arbitrary: db)
  case Nil
  then show ?case by simp
next
  case (Cons x xs)
  have "tasks_valid (step newDate db x)"
    using Cons.prems
    by (cases x) (simp_all add: createTask_tasks_valid updateTask_tasks_valid)
  then show ?case using Cons by simp
qed

text \<open>
  C9 as stated fails: alice creates a task in her project with the status "bogus", and
  the task is stored with that status.
\<close>

theorem unlisted_status_counterexample:
  "tasks_valid db0 \<and>
   \<not> tasks_valid (run (\<lambda>v. InvalidDate) db0
        [Create ''u1'' ''t2'' (obj [(''title'', JStr ''x''), (''projectId'', JStr ''p1''),
                                   (''status'', JStr ''bogus'')])])"
  by (simp add: tasks_valid_def valid_status_def valid_priority_def createTask_def task_create_def
      project_findFirst_def members_some_def project_exists_def user_exists_def js_or_def Let_def
      sample_defs)

theorem tasks_valid_run_witness:
  "tasks_valid db0 \<and>
   tasks_valid (run (\<lambda>v. InvalidDate) db0
        [Create ''u1'' ''t2'' (obj [(''title'', JStr ''x''), (''projectId'', JStr ''p1'')]),
         Update ''u2'' ''t2'' (obj [(''status'', JStr ''completed''), (''priority'', JStr ''high'')])])"
proof -
  have h1: "tasks_valid db0"
    by (simp add: tasks_valid_def valid_status_def valid_priority_def sample_defs)
  have h2: "\<forall>x \<in> set [Create ''u1'' ''t2'' (obj [(''title'', JStr ''x''), (''projectId'', JStr ''p1'')]),
         Update ''u2'' ''t2'' (obj [(''status'', JStr ''completed''), (''priority'', JStr ''high'')])].
          names_listed (op_body x)"
    by (simp add: names_listed_def valid_status_def valid_priority_def obj_def)
  show ?thesis using tasks_valid_run [OF h1 h2] h1 by simp
qed

section \<open>Team listing\<close>

lemma team_filter_iff:
  "(\<exists>m \<in> set (projectMembers db). pm_userId m = x \<and>
      pm_projectId m \<in> set (map pm_projectId (filter (\<lambda>m. pm_userId m = uid) (projectMembers db))))
   = (\<exists>pid. members_some db pid x \<and> members_some db pid uid)"
  unfolding members_some_def by (simp add: image_iff) metis

text \<open>
  C10. \<^verbatim>\<open>GET /api/team\<close> returns, in the order of the user table, exactly the users that
  hold a membership in some project in which the requester holds one too; each entry
  carries the identifier, email and username of its user row and the number of all task
  rows whose assignee that user is, whatever project the task belongs to.
\<close>

theorem team_shared_projects:
  "map tm_id (team db uid)
     = map user_id (filter (\<lambda>u. \<exists>pid. members_some db pid (user_id u) \<and> members_some db pid uid)
                       (users db))
   \<and> (\<forall>m \<in> set (team db uid).
         tm_assignedTasks m = length (filter (\<lambda>t. task_assigneeId t = Some (tm_id m)) (tasks db))
       \<and> (\<exists>u \<in> set (users db). tm_id m = user_id u \<and> tm_email m = user_email u
             \<and> tm_username m = user_username u))"
proof -
  have 1: "map tm_id (team db uid)
     = map user_id (filter (\<lambda>u. \<exists>pid. members_some db pid (user_id u) \<and> members_some db pid uid)
                       (users db))"
    by (simp add: team_def Let_def team_filter_iff comp_def del: set_map)
  have 2: "\<forall>m \<in> set (team db uid).
         tm_assignedTasks m = length (filter (\<lambda>t. task_assigneeId t = Some (tm_id m)) (tasks db))
       \<and> (\<exists>u \<in> set (users db). tm_id m = user_id u \<and> tm_email m = user_email u
             \<and> tm_username m = user_username u)"
    by (auto simp: team_def Let_def)
  show ?thesis using 1 2 by blast
qed

theorem team_shared_projects_witness:
  "map tm_id (team db0 ''u1'') = [''u1'', ''u2''] \<and> map tm_assignedTasks (team db0 ''u1'') = [0, 1]
    \<and> team db0 ''u3'' = []"
proof -
  have "map tm_id (team db0 ''u1'') = [''u1'', ''u2'']"
    using team_shared_projects [of db0 "''u1''"]
    by (simp add: members_some_def sample_defs)
  moreover have "map tm_assignedTasks (team db0 ''u1'') = [0, 1] \<and> team db0 ''u3'' = []"
    by (simp add: team_def sample_defs)
  ultimately show ?thesis by simp
qed

section \<open>Adding a member\<close>

text \<open>
  C2 at a failing input. The handler of \<^verbatim>\<open>POST /api/projects/:id/members\<close> never looks
  up the requester's membership: carol, who is no member of Launch, adds herself to it
  (here with the role "owner") and the request succeeds.
\<close>

theorem addMember_by_non_member:
  "\<not> members_some db0 ''p1'' ''u3''
   \<and> addMember db0 ''m3'' ''u3'' ''p1'' (obj [(''email'', JStr ''carol@example.com''), (''role'', JStr ''owner'')])
     = (Json \<lparr> pm_id = ''m3'', pm_projectId = ''p1'', pm_userId = ''u3'', pm_role = ''owner'' \<rparr>,
        db0\<lparr> projectMembers := projectMembers db0 @
               [\<lparr> pm_id = ''m3'', pm_projectId = ''p1'', pm_userId = ''u3'', pm_role = ''owner'' \<rparr>] \<rparr>)"
  by (simp add: addMember_def user_findUnique_email_def projectMember_findFirst_def
      projectMember_create_def members_some_def project_exists_def user_exists_def js_or_def Let_def
      sample_defs)

section \<open>Requests by users outside the project\<close>

lemma task_findFirst_hidden:
  assumes "\<not> members_some db pid uid"
    and "\<forall>t \<in> set (tasks db). task_id t = tid \<longrightarrow> task_projectId t = pid"
  shows "task_findFirst db tid uid = None"
  using assms by (auto simp: task_findFirst_def find_None_iff task_visible_def)

lemma map_no_hit:
  assumes "\<forall>x \<in> set xs. \<not> hit x"
  shows "map (\<lambda>x. if hit x then g x else x) xs = xs" "filter hit xs = []"
  using assms by (induction xs) auto

lemma task_updateMany_hidden_eq:
  assumes "\<not> members_some db pid uid"
    and "\<forall>t \<in> set (tasks db). task_id t = tid \<longrightarrow> task_projectId t = pid"
  shows "task_updateMany db tid uid ti de st pr du asg =
           (if updReq ti = None \<or> updOpt de = None \<or> updReq st = None \<or> updReq pr = None
               \<or> updDate du = None \<or> updOpt asg = None
            then None else Some (0, db))"
proof -
  have nohit: "\<forall>x \<in> set (tasks db). \<not> (task_id x = tid \<and> task_visible db uid x)"
    using assms by (auto simp: task_visible_def)
  show ?thesis
    unfolding task_updateMany_def Let_def
    by (auto simp: map_no_hit[OF nohit] split: bind_splits)
qed

lemma project_updateMany_hidden_eq:
  assumes "\<not> members_some db pid uid"
  shows "project_updateMany db pid uid n d c =
           (if updReq (Some n) = None \<or> updOpt (Some d) = None \<or> updReq (Some c) = None
            then None else Some (0, db))"
proof -
  have nohit: "\<forall>p \<in> set (projects db). \<not> (project_id p = pid \<and> members_some db (project_id p) uid)"
    using assms by auto
  show ?thesis
    unfolding project_updateMany_def Let_def
    by (auto simp: map_no_hit[OF nohit] split: bind_splits)
qed

lemma updDate_fits:
  "(updDate (if v \<noteq> JUndefined then Some (if truthy v then Some x else None) else None) = None)
     = (truthy v \<and> x = InvalidDate)"
  by (cases v; cases x) simp_all

text \<open>
  C1, as the code has it. Let the requester hold no membership in the project \<open>pid\<close>, and
  let every task with the identifier \<open>tid\<close> belong to that project. Then reading the
  project, reading, deleting, commenting on (with a content) or attaching a file to the
  task, and creating a task in the project (with a title) are answered 404; updating the
  project or the task is answered 500 exactly when a value of the body does not fit its
  column, and 404 otherwise. None of these requests returns the resource or changes the
  store. Deleting the project is answered 403, with the store unchanged, for this
  requester and for every requester that no membership row makes an owner of the
  project.
\<close>

theorem non_member_not_found:
  assumes "\<not> members_some db pid uid"
    and "\<forall>t \<in> set (tasks db). task_id t = tid \<longrightarrow> task_projectId t = pid"
  shows "getProject db uid pid = Err 404 ''Project not found''
       \<and> updateProject db uid pid b =
           (if updReq (Some (b ''name'')) = None \<or> updOpt (Some (b ''description'')) = None
               \<or> updReq (Some (b ''color'')) = None
            then Err 500 ''Failed to update project'' else Err 404 ''Project not found'', db)
       \<and> (b ''projectId'' = JStr pid \<and> pid \<noteq> [] \<and> truthy (b ''title'') \<longrightarrow>
            createTask newDate db newId uid b = (Err 404 ''Project not found'', db))
       \<and> getTask db uid tid = Err 404 ''Task not found''
       \<and> updateTask newDate db uid tid b =
           (if updReq (present (b ''title'')) = None \<or> updOpt (present (b ''description'')) = None
               \<or> updReq (present (b ''status'')) = None \<or> updReq (present (b ''priority'')) = None
               \<or> (truthy (b ''dueDate'') \<and> newDate (b ''dueDate'') = InvalidDate)
               \<or> updOpt (present (b ''assigneeId'')) = None
            then Err 500 ''Failed to update task'' else Err 404 ''Task not found'', db)
       \<and> deleteTask db uid tid = (Err 404 ''Task not found'', db)
       \<and> (truthy (b ''content'') \<longrightarrow>
            createComment db newId uid tid b = (Err 404 ''Task not found'', db))
       \<and> createAttachment db newId uid tid (Some f) = (Err 404 ''Task not found'', db)
       \<and> deleteProject db uid pid = (Err 403 ''Only owner can delete project'', db)
       \<and> ((\<forall>m \<in> set (projectMembers db).
               pm_projectId m = pid \<and> pm_userId m = requester \<longrightarrow> pm_role m \<noteq> ''owner'')
            \<longrightarrow> deleteProject db requester pid = (Err 403 ''Only owner can delete project'', db))"
proof -
  note p = project_findFirst_not_member[OF assms(1)]
  note t = task_findFirst_hidden[OF assms]
  have 1: "getProject db uid pid = Err 404 ''Project not found''"
    using p by (simp add: getProject_def)
  have 2: "updateProject db uid pid b =
           (if updReq (Some (b ''name'')) = None \<or> updOpt (Some (b ''description'')) = None
               \<or> updReq (Some (b ''color'')) = None
            then Err 500 ''Failed to update project'' else Err 404 ''Project not found'', db)"
    by (auto simp: updateProject_def Let_def project_updateMany_hidden_eq[OF assms(1)])
  have 3: "b ''projectId'' = JStr pid \<and> pid \<noteq> [] \<and> truthy (b ''title'') \<longrightarrow>
            createTask newDate db newId uid b = (Err 404 ''Project not found'', db)"
    using p by (simp add: createTask_def)
  have 4: "getTask db uid tid = Err 404 ''Task not found''"
    using t by (simp add: getTask_def)
  have 5: "updateTask newDate db uid tid b =
           (if updReq (present (b ''title'')) = None \<or> updOpt (present (b ''description'')) = None
               \<or> updReq (present (b ''status'')) = None \<or> updReq (present (b ''priority'')) = None
               \<or> (truthy (b ''dueDate'') \<and> newDate (b ''dueDate'') = InvalidDate)
               \<or> updOpt (present (b ''assigneeId'')) = None
            then Err 500 ''Failed to update task'' else Err 404 ''Task not found'', db)"
    by (auto simp: updateTask_def Let_def task_updateMany_hidden_eq[OF assms] updDate_fits)
  have 6: "deleteTask db uid tid = (Err 404 ''Task not found'', db)"
    using t by (simp add: deleteTask_def)
  have 7: "truthy (b ''content'') \<longrightarrow>
            createComment db newId uid tid b = (Err 404 ''Task not found'', db)"
    using t by (simp add: createComment_def)
  have 8: "createAttachment db newId uid tid (Some f) = (Err 404 ''Task not found'', db)"
    using t by (simp add: createAttachment_def)
  have "\<forall>m \<in> set (projectMembers db). pm_projectId m = pid \<and> pm_userId m = uid \<longrightarrow> pm_role m \<noteq> ''owner''"
    using assms(1) by (auto simp: members_some_def)
  then have 9: "deleteProject db uid pid = (Err 403 ''Only owner can delete project'', db)"
    using owner_find_None by (simp add: deleteProject_def)
  have 10: "(\<forall>m \<in> set (projectMembers db).
               pm_projectId m = pid \<and> pm_userId m = requester \<longrightarrow> pm_role m \<noteq> ''owner'')
            \<longrightarrow> deleteProject db requester pid = (Err 403 ''Only owner can delete project'', db)"
    using owner_find_None by (simp add: deleteProject_def)
  show ?thesis
    by (intro conjI) (rule 1 2 3 4 5 6 7 8 9 10)+
qed

text \<open>
  C1 as stated fails: carol, who holds no membership in Launch, asks to delete it and is
  answered 403, not 404.
\<close>

theorem non_member_delete_counterexample:
  "\<not> members_some db0 ''p1'' ''u3''
   \<and> Forbidden (fst (deleteProject db0 ''u3'' ''p1''))
   \<and> \<not> NotFound (fst (deleteProject db0 ''u3'' ''p1''))"
  by (simp add: members_some_def deleteProject_def projectMember_findFirst_owner_def
      Forbidden_def NotFound_def sample_defs)

theorem non_member_not_found_witness:
  "\<not> members_some db0 ''p1'' ''u3''
   \<and> getProject db0 ''u3'' ''p1'' = Err 404 ''Project not found''
   \<and> updateProject db0 ''u3'' ''p1'' (obj [(''status'', JStr ''completed'')])
       = (Err 404 ''Project not found'', db0)
   \<and> getTask db0 ''u3'' ''t1'' = Err 404 ''Task not found''
   \<and> updateTask (\<lambda>v. InvalidDate) db0 ''u3'' ''t1'' (obj [(''status'', JStr ''completed'')])
       = (Err 404 ''Task not found'', db0)
   \<and> updateTask (\<lambda>v. InvalidDate) db0 ''u3'' ''t1'' (obj [(''content'', JStr ''hi''), (''title'', JNull)])
       = (Err 500 ''Failed to update task'', db0)
   \<and> deleteTask db0 ''u3'' ''t1'' = (Err 404 ''Task not found'', db0)
   \<and> createComment db0 ''c1'' ''u3'' ''t1'' (obj [(''content'', JStr ''hi''), (''title'', JNull)])
       = (Err 404 ''Task not found'', db0)
   \<and> members_some db0 ''p1'' ''u2''
   \<and> deleteProject db0 ''u2'' ''p1'' = (Err 403 ''Only owner can delete project'', db0)"
proof -
  have h1: "\<not> members_some db0 ''p1'' ''u3''" by (simp add: members_some_def sample_defs)
  have h2: "\<forall>t \<in> set (tasks db0). task_id t = ''t1'' \<longrightarrow> task_projectId t = ''p1''"
    by (simp add: sample_defs)
  have h3: "\<forall>m \<in> set (projectMembers db0).
               pm_projectId m = ''p1'' \<and> pm_userId m = ''u2'' \<longrightarrow> pm_role m \<noteq> ''owner''"
    by (simp add: sample_defs)
  have h4: "members_some db0 ''p1'' ''u2''" by (simp add: members_some_def sample_defs)
  note w1 = non_member_not_found [OF h1 h2, where b = "obj [(''status'', JStr ''completed'')]"
      and newDate = "\<lambda>v. InvalidDate" and newId = "''c1''" and requester = "''u2''"]
  note w2 = non_member_not_found [OF h1 h2, where b = "obj [(''content'', JStr ''hi''), (''title'', JNull)]"
      and newDate = "\<lambda>v. InvalidDate" and newId = "''c1''" and requester = "''u2''"]
  show ?thesis
    using w1 w2 h1 h3 h4 by (simp add: obj_def present_def)
qed

section \<open>Tokens\<close>

text \<open>
  C8. A token issued for an identity verifies, before the seven days are over, to exactly
  the identifier, email and username it was issued for, and not from then on. A token
  that is malformed, whose signature is not the one the server's secret gives for its
  claims, or whose expiry has passed verifies to nothing. Whenever verification returns
  an identity, it is the identity embedded in the token, the token carries the secret's
  signature over its claims, and its expiry lies ahead.
\<close>

theorem token_round_trip:
  "(now' < now + seven_days \<longrightarrow>
       verifyToken mac now' env (generateToken mac now env user)
         = Some \<lparr> ident_id = ident_id user, ident_email = ident_email user,
                  ident_username = ident_username user \<rparr>)
   \<and> (now + seven_days \<le> now' \<longrightarrow>
         verifyToken mac now' env (generateToken mac now env user) = None)
   \<and> verifyToken mac now' env (Malformed s) = None
   \<and> (sig \<noteq> mac (JWT_SECRET env) c \<longrightarrow> verifyToken mac now' env (Token c sig) = None)
   \<and> (claim_exp c \<le> now' \<longrightarrow> verifyToken mac now' env (Token c sig) = None)
   \<and> (verifyToken mac now' env tok = Some p \<longrightarrow>
         (\<exists>c'. tok = Token c' (mac (JWT_SECRET env) c') \<and> p = claim_payload c'
               \<and> now' < claim_exp c'))"
proof -
  have 1: "now' < now + seven_days \<longrightarrow>
       verifyToken mac now' env (generateToken mac now env user)
         = Some \<lparr> ident_id = ident_id user, ident_email = ident_email user,
                  ident_username = ident_username user \<rparr>"
    by (simp add: verifyToken_def generateToken_def jwt_sign_def jwt_verify_def Let_def)
  have 2: "now + seven_days \<le> now' \<longrightarrow>
         verifyToken mac now' env (generateToken mac now env user) = None"
    by (simp add: verifyToken_def generateToken_def jwt_sign_def jwt_verify_def Let_def)
  have 3: "verifyToken mac now' env (Malformed s) = None"
    by (simp add: verifyToken_def jwt_verify_def)
  have 4: "sig \<noteq> mac (JWT_SECRET env) c \<longrightarrow> verifyToken mac now' env (Token c sig) = None"
    by (simp add: verifyToken_def jwt_verify_def)
  have 5: "claim_exp c \<le> now' \<longrightarrow> verifyToken mac now' env (Token c sig) = None"
    by (simp add: verifyToken_def jwt_verify_def)
  have 6: "verifyToken mac now' env tok = Some p \<longrightarrow>
         (\<exists>c'. tok = Token c' (mac (JWT_SECRET env) c') \<and> p = claim_payload c'
               \<and> now' < claim_exp c')"
    by (cases tok) (auto simp: verifyToken_def jwt_verify_def split: if_splits)
  show ?thesis
    by (intro conjI) (rule 1 2 3 4 5 6)+
qed

lemma token_sample:
  "generateToken toy_mac 1000 None alice_identity
     = Token \<lparr> claim_payload = alice_identity, claim_iat = 1000, claim_exp = 605800 \<rparr>
         ''taskflow-secret-key/u1''"
  by (simp add: generateToken_def jwt_sign_def JWT_SECRET_def seven_days_def toy_mac_def
      alice_identity_def Let_def)

theorem token_round_trip_witness:
  "verifyToken toy_mac 2000 None (generateToken toy_mac 1000 None alice_identity) = Some alice_identity
   \<and> verifyToken toy_mac 605800 None (generateToken toy_mac 1000 None alice_identity) = None
   \<and> verifyToken toy_mac 2000 None (Malformed ''not.a.token'') = None
   \<and> verifyToken toy_mac 2000 None
        (Token \<lparr> claim_payload = alice_identity, claim_iat = 1000, claim_exp = 605800 \<rparr> ''forged'')
       = None
   \<and> generateToken toy_mac 1000 None alice_identity
       = Token \<lparr> claim_payload = alice_identity, claim_iat = 1000, claim_exp = 605800 \<rparr>
           ''taskflow-secret-key/u1''"
proof -
  let ?c = "\<lparr> claim_payload = alice_identity, claim_iat = 1000, claim_exp = 605800 \<rparr>"
  note w1 = token_round_trip [where now' = 2000 and now = 1000 and mac = toy_mac and env = None
      and user = alice_identity and s = "''not.a.token''" and c = ?c and sig = "''forged''"
      and tok = "generateToken toy_mac 1000 None alice_identity" and p = alice_identity]
  note w2 = token_round_trip [where now' = 605800 and now = 1000 and mac = toy_mac and env = None
      and user = alice_identity and s = "''not.a.token''" and c = ?c and sig = "''forged''"
      and tok = "generateToken toy_mac 1000 None alice_identity" and p = alice_identity]
  have a: "(2000::nat) < 1000 + seven_days" "(1000::nat) + seven_days \<le> 605800"
    by (simp_all add: seven_days_def)
  have f: "''forged'' \<noteq> toy_mac (JWT_SECRET None) ?c"
    by (simp add: toy_mac_def JWT_SECRET_def)
  have 1: "verifyToken toy_mac 2000 None (generateToken toy_mac 1000 None alice_identity) = Some alice_identity"
    using w1 a(1) by (simp add: alice_identity_def)
  have 2: "verifyToken toy_mac 605800 None (generateToken toy_mac 1000 None alice_identity) = None"
    using w2 a(2) by simp
  have 3: "verifyToken toy_mac 2000 None (Malformed ''not.a.token'') = None"
    using w1 by simp
  have 4: "verifyToken toy_mac 2000 None (Token ?c ''forged'') = None"
    using w1 f by simp
  show ?thesis
    by (intro conjI) (rule 1 2 3 4 token_sample)+
qed

end
